theory Spec2Isabelle
  imports Complex_Main "HOL-Library.Multiset"
begin

section \<open>Python values, exceptions and the built-ins the code uses\<close>

text \<open>
  The results that flow through the pipeline are Python dictionaries with string keys and
  heterogeneous values. They are modelled as values of \<open>pyval\<close>; a dictionary is an
  association list in insertion order (looked up with \<open>map_of\<close>, so the first binding of
  a key is the one that counts). A Python float is a double, and is modelled by the
  rational number it denotes; the arithmetic the code does on floats rounds (see \<open>fl\<close>
  below). The non-finite floats are not part of the model.
\<close>

datatype pyval =
    PNone
  | PBool bool
  | PInt int
  | PFloat rat
  | PStr string
  | PList "pyval list"
  | PDict "(string \<times> pyval) list"

text \<open>
  Exceptions are values. \<open>External\<close> stands for whatever an external collaborator
  (model inference, file system, base64 decoding) raises; all of them are subclasses of
  Python's \<open>Exception\<close>.
\<close>

datatype exn =
    KeyError string
  | TypeError
  | AttributeError
  | IndexError
  | UnboundLocalError
  | RuntimeError
  | External string

text \<open>\<open>str(e)\<close>: the key of a KeyError in quotes; otherwise the message texts are not
  modelled and the name of the exception class stands for them.\<close>

fun str_exn :: "exn \<Rightarrow> string" where
  "str_exn (KeyError k) = [CHR 0x27] @ k @ [CHR 0x27]"
| "str_exn TypeError = ''TypeError''"
| "str_exn AttributeError = ''AttributeError''"
| "str_exn IndexError = ''IndexError''"
| "str_exn UnboundLocalError = ''UnboundLocalError''"
| "str_exn RuntimeError = ''System not ready. Load models first.''"
| "str_exn (External m) = m"

text \<open>Sequencing of computations that may raise.\<close>

fun bind_res :: "exn + 'a \<Rightarrow> ('a \<Rightarrow> exn + 'b) \<Rightarrow> exn + 'b" where
  "bind_res (Inl e) f = Inl e"
| "bind_res (Inr v) f = f v"

text \<open>\<open>d[k]\<close>: KeyError on a dictionary without the key, TypeError on anything that is
  not a dictionary (a string key never indexes a list or a string).\<close>

fun py_getitem :: "pyval \<Rightarrow> string \<Rightarrow> exn + pyval" where
  "py_getitem (PDict d) k = (case map_of d k of None \<Rightarrow> Inl (KeyError k) | Some v \<Rightarrow> Inr v)"
| "py_getitem _ k = Inl TypeError"

text \<open>\<open>d.get(k, default)\<close>: only dictionaries have the method.\<close>

fun py_get :: "pyval \<Rightarrow> string \<Rightarrow> pyval \<Rightarrow> exn + pyval" where
  "py_get (PDict d) k dflt = Inr (case map_of d k of None \<Rightarrow> dflt | Some v \<Rightarrow> v)"
| "py_get _ k dflt = Inl AttributeError"

text \<open>\<open>d[k] = v\<close> on a dictionary: an existing key keeps its position, a new key is
  appended.\<close>

fun dict_set :: "(string \<times> pyval) list \<Rightarrow> string \<Rightarrow> pyval \<Rightarrow> (string \<times> pyval) list" where
  "dict_set [] k v = [(k, v)]"
| "dict_set ((k', v') # d) k v = (if k' = k then (k, v) # d else (k', v') # dict_set d k v)"

text \<open>Truth value of an object, as \<open>if x:\<close> and \<open>not x\<close> compute it.\<close>

fun py_truthy :: "pyval \<Rightarrow> bool" where
  "py_truthy PNone = False"
| "py_truthy (PBool b) = b"
| "py_truthy (PInt i) = (i \<noteq> 0)"
| "py_truthy (PFloat x) = (x \<noteq> 0)"
| "py_truthy (PStr s) = (s \<noteq> [])"
| "py_truthy (PList xs) = (xs \<noteq> [])"
| "py_truthy (PDict d) = (d \<noteq> [])"

text \<open>\<open>len(x)\<close>.\<close>

fun py_len :: "pyval \<Rightarrow> exn + int" where
  "py_len (PStr s) = Inr (int (length s))"
| "py_len (PList xs) = Inr (int (length xs))"
| "py_len (PDict d) = Inr (int (length d))"
| "py_len _ = Inl TypeError"

text \<open>The elements a \<open>for\<close> loop over \<open>x\<close> visits: the items of a list, the keys of a
  dictionary, the characters of a string.\<close>

fun py_iter :: "pyval \<Rightarrow> exn + pyval list" where
  "py_iter (PList xs) = Inr xs"
| "py_iter (PDict d) = Inr (map (\<lambda>(k, v). PStr k) d)"
| "py_iter (PStr s) = Inr (map (\<lambda>c. PStr [c]) s)"
| "py_iter _ = Inl TypeError"

text \<open>\<open>d.items()\<close>.\<close>

fun py_items :: "pyval \<Rightarrow> exn + (string \<times> pyval) list" where
  "py_items (PDict d) = Inr d"
| "py_items _ = Inl AttributeError"

text \<open>
  \<open>round(x, n)\<close> with \<open>n\<close> decimal places. CPython rounds the exact value of the float
  to the nearest multiple of \<open>10^-n\<close>, ties to the even multiple, and returns the float
  nearest to that decimal; the model returns the decimal itself. An int (and a bool,
  which is an int) is returned as an int; anything else has no \<open>__round__\<close>.
\<close>

definition round_half_even :: "rat \<Rightarrow> int" where
  "round_half_even x =
     (let f = \<lfloor>x\<rfloor>; d = x - of_int f
      in if d < 1 / 2 then f
         else if 1 / 2 < d then f + 1
         else if even f then f else f + 1)"

definition round_decimals :: "rat \<Rightarrow> nat \<Rightarrow> rat" where
  "round_decimals x n = of_int (round_half_even (x * 10 ^ n)) / 10 ^ n"

fun py_round :: "pyval \<Rightarrow> nat \<Rightarrow> exn + pyval" where
  "py_round (PFloat x) n = Inr (PFloat (round_decimals x n))"
| "py_round (PInt i) n = Inr (PInt i)"
| "py_round (PBool b) n = Inr (PInt (if b then 1 else 0))"
| "py_round _ n = Inl TypeError"

text \<open>
  Float arithmetic. An operation on doubles returns the double nearest to the exact
  result, ties going to the double with an even significand: \<open>fl x\<close> is that double for
  the exact result \<open>x\<close>. A double has 53 significant bits, so the doubles between
  \<open>2^e\<close> and \<open>2^(e+1)\<close> are the multiples of \<open>2^(e-52)\<close>; below \<open>2^-1022\<close> they are
  the multiples of \<open>2^-1074\<close>. Results of magnitude \<open>2^1024\<close> and more, which Python
  turns into an infinity or an \<open>OverflowError\<close>, are outside the model.
\<close>

function bit_length :: "int \<Rightarrow> int" where
  "bit_length n = (if n \<le> 0 then 0 else 1 + bit_length (n div 2))"
  by pat_completeness auto
termination by (relation "measure nat") auto

declare bit_length.simps [simp del]

text \<open>The exponent \<open>e\<close> with \<open>2^e \<le> |x| < 2^(e+1)\<close>, for \<open>x\<close> other than 0.\<close>

definition float_exponent :: "rat \<Rightarrow> int" where
  "float_exponent x =
     (let (a, b) = quotient_of \<bar>x\<bar>;
          k = bit_length a - bit_length b
      in if 2 powi k \<le> \<bar>x\<bar> then k else k - 1)"

definition fl :: "rat \<Rightarrow> rat" where
  "fl x =
     (if x = 0 then 0
      else let q = 2 powi (max (float_exponent x - 52) (- 1074))
           in of_int (round_half_even (x / q)) * q)"


section \<open>The response formatter (api\_server.py, \_format\_flutter\_response)\<close>

text \<open>One entry of the flattened \<open>bounding_boxes\<close> list: the dictionary literal of the
  inner loop, its values read in the order the literal lists them.\<close>

definition bbox_entry :: "string \<Rightarrow> pyval \<Rightarrow> exn + pyval" where
  "bbox_entry defect_type bbox =
     bind_res (py_getitem bbox ''x'') (\<lambda>x.
     bind_res (py_getitem bbox ''y'') (\<lambda>y.
     bind_res (py_getitem bbox ''width'') (\<lambda>w.
     bind_res (py_getitem bbox ''height'') (\<lambda>h.
     bind_res (py_getitem bbox ''center_x'') (\<lambda>cx.
     bind_res (py_getitem bbox ''center_y'') (\<lambda>cy.
     bind_res (py_getitem bbox ''area'') (\<lambda>a.
       Inr (PDict [(''defect_type'', PStr defect_type), (''x'', x), (''y'', y),
                   (''width'', w), (''height'', h), (''center_x'', cx),
                   (''center_y'', cy), (''area'', a)]))))))))"

text \<open>The inner loop \<open>for bbox in bboxes\<close>, appending to the list built so far.\<close>

fun append_bboxes :: "string \<Rightarrow> pyval list \<Rightarrow> pyval list \<Rightarrow> exn + pyval list" where
  "append_bboxes defect_type [] acc = Inr acc"
| "append_bboxes defect_type (bbox # rest) acc =
     bind_res (bbox_entry defect_type bbox) (\<lambda>e. append_bboxes defect_type rest (acc @ [e]))"

text \<open>The outer loop \<open>for defect_type, bboxes in ....items()\<close>.\<close>

fun simplify_bboxes :: "(string \<times> pyval) list \<Rightarrow> pyval list \<Rightarrow> exn + pyval list" where
  "simplify_bboxes [] acc = Inr acc"
| "simplify_bboxes ((defect_type, bboxes) # rest) acc =
     bind_res (py_iter bboxes) (\<lambda>bs.
     bind_res (append_bboxes defect_type bs acc) (\<lambda>acc'.
       simplify_bboxes rest acc'))"

text \<open>The block under \<open>if result.get('defect_classification'):\<close>. It yields the new value
  of \<open>defect_classification\<close> and the filled \<open>bounding_boxes\<close> list.\<close>

definition add_classification :: "pyval \<Rightarrow> exn + pyval \<times> pyval list" where
  "add_classification result =
     bind_res (py_get result ''defect_classification'' PNone) (\<lambda>c.
       if py_truthy c then
         bind_res (py_getitem result ''defect_classification'') (\<lambda>defect_result.
         bind_res (py_getitem defect_result ''detected_defects'') (\<lambda>dd.
         bind_res (py_getitem defect_result ''detected_defects'') (\<lambda>dd'.
         bind_res (py_len dd') (\<lambda>n.
         bind_res (py_get defect_result ''bounding_boxes'' (PDict [])) (\<lambda>bb.
         bind_res (py_items bb) (\<lambda>items.
         bind_res (simplify_bboxes items []) (\<lambda>boxes.
           Inr (PDict [(''detected_defects'', dd), (''total_defect_types'', PInt n)],
                boxes))))))))
       else Inr (PNone, []))"

text \<open>The body of the \<open>try\<close> block.\<close>

definition format_body :: "pyval \<Rightarrow> exn + pyval" where
  "format_body result =
     bind_res (py_getitem result ''final_decision'') (\<lambda>fd.
     bind_res (py_getitem result ''processing_time'') (\<lambda>pt.
     bind_res (py_round pt 2) (\<lambda>pt2.
     bind_res (py_getitem result ''timestamp'') (\<lambda>ts.
     bind_res (py_getitem result ''anomaly_detection'') (\<lambda>ad.
     bind_res (py_getitem ad ''anomaly_score'') (\<lambda>sc.
     bind_res (py_round sc 4) (\<lambda>sc4.
     bind_res (py_getitem result ''anomaly_detection'') (\<lambda>ad'.
     bind_res (py_getitem ad' ''decision'') (\<lambda>dec.
     bind_res (py_getitem result ''anomaly_detection'') (\<lambda>ad''.
     bind_res (py_getitem ad'' ''threshold_used'') (\<lambda>thr.
     bind_res (py_get result ''detected_defect_types'' (PList [])) (\<lambda>ddt.
     bind_res (py_get result ''detected_defect_types'' (PList [])) (\<lambda>ddt'.
     bind_res (py_len ddt') (\<lambda>cnt.
     bind_res (add_classification result) (\<lambda>(dc, boxes).
       Inr (PDict [(''status'', PStr ''success''),
                   (''final_decision'', fd),
                   (''processing_time'', pt2),
                   (''timestamp'', ts),
                   (''anomaly_detection'',
                      PDict [(''anomaly_score'', sc4), (''decision'', dec),
                             (''threshold_used'', thr)]),
                   (''defect_classification'', dc),
                   (''detected_defects'', ddt),
                   (''defect_count'', PInt cnt),
                   (''bounding_boxes'', PList boxes)]))))))))))))))))"

text \<open>The \<open>except Exception\<close> handler's reply.\<close>

definition error_object :: "exn \<Rightarrow> pyval" where
  "error_object e =
     PDict [(''status'', PStr ''error''), (''error'', PStr (str_exn e)),
            (''final_decision'', PStr ''ERROR'')]"

text \<open>The whole method: \<open>try\<close> the body, on any exception return the error object. The
  result type keeps the exception alternative, so that "never raises" is a statement
  about the function and not about its type.\<close>

definition format_flutter_response :: "pyval \<Rightarrow> exn + pyval" where
  "format_flutter_response result =
     (case format_body result of
        Inr flutter_response \<Rightarrow> Inr flutter_response
      | Inl e \<Rightarrow> Inr (error_object e))"


section \<open>The two-stage pipeline (processors/image\_processor.py, process\_single\_image)\<close>

text \<open>
  The detection core (core/detection.py), the report writer (utils/reports.py) and the
  clock are collaborators of the pipeline, not part of it: they are the fields of an
  environment. \<open>detect_anomaly\<close>, \<open>classify_defects\<close> and \<open>save_analysis_report\<close>
  may raise or return any value; \<open>create_visualization\<close> (utils/visualization.py)
  catches every exception itself and returns a path or \<open>None\<close>. The remaining fields
  serve the API server: base64 decoding, the write of the temporary image file, the
  identifiers \<open>uuid.uuid4()\<close> hands out, and the write of the batch summary file.
\<close>

record env =
  detect_anomaly :: "string \<Rightarrow> exn + pyval"
  classify_defects :: "string \<Rightarrow> pyval \<Rightarrow> exn + pyval"
  create_visualization :: "pyval \<Rightarrow> string \<Rightarrow> pyval"
  save_analysis_report :: "pyval \<Rightarrow> string \<Rightarrow> exn + pyval"
  time_start :: "string \<Rightarrow> rat"
  time_end :: "string \<Rightarrow> rat"
  now_isoformat :: "string \<Rightarrow> string"
  b64decode :: "string \<Rightarrow> exn + string"
  write_file :: "string \<Rightarrow> string \<Rightarrow> exn option"
  uuid4 :: "nat \<Rightarrow> string"
  dump_summary :: "string \<Rightarrow> exn option"

text \<open>The calls a run makes to its collaborators, in order.\<close>

datatype call =
    DetectAnomaly string
  | ClassifyDefects string pyval
  | CreateVisualization string
  | SaveAnalysisReport string

definition OUTPUTS_DIR :: string where
  "OUTPUTS_DIR = ''outputs''"

text \<open>From "Calculate total processing time" to \<open>return result\<close>. The two readings of
  \<open>time.time()\<close> are doubles and so is their difference. An exception of the report
  writer reaches the \<open>except\<close> clause of the method, which returns \<open>None\<close>.\<close>

definition finish_result ::
  "env \<Rightarrow> string \<Rightarrow> string \<Rightarrow> (string \<times> pyval) list \<Rightarrow> call list \<Rightarrow> pyval \<times> call list" where
  "finish_result env image_path output_dir result calls =
     (let r1 = dict_set result ''processing_time''
                 (PFloat (fl (time_end env image_path - time_start env image_path)));
          visualization_path = create_visualization env (PDict r1) output_dir;
          r2 = dict_set r1 ''visualization_path'' visualization_path;
          calls' = calls @ [CreateVisualization image_path, SaveAnalysisReport image_path]
      in case save_analysis_report env (PDict r2) output_dir of
           Inl e \<Rightarrow> (PNone, calls')
         | Inr report_path \<Rightarrow> (PDict (dict_set r2 ''report_path'' report_path), calls'))"

text \<open>The method returns the result dictionary, or \<open>None\<close> (here \<open>PNone\<close>) when the anomaly
  stage gave nothing or anything raised; with it the model returns the calls made.\<close>

definition process_single_image ::
  "env \<Rightarrow> string \<Rightarrow> string option \<Rightarrow> pyval \<times> call list" where
  "process_single_image env image_path output_dir_opt =
     (let output_dir = (case output_dir_opt of None \<Rightarrow> OUTPUTS_DIR | Some d \<Rightarrow> d);
          calls = [DetectAnomaly image_path]
      in case detect_anomaly env image_path of
           Inl e \<Rightarrow> (PNone, calls)
         | Inr anomaly_result \<Rightarrow>
             if \<not> py_truthy anomaly_result then (PNone, calls)
             else
               (case py_getitem anomaly_result ''decision'' of
                  Inl e \<Rightarrow> (PNone, calls)
                | Inr decision \<Rightarrow>
                    let result =
                          [(''image_path'', PStr image_path),
                           (''timestamp'', PStr (now_isoformat env image_path)),
                           (''anomaly_detection'', anomaly_result),
                           (''defect_classification'', PNone),
                           (''processing_time'', PInt 0),
                           (''final_decision'', decision)]
                    in if decision = PStr ''DEFECT'' then
                         (case py_getitem anomaly_result ''anomaly_mask'' of
                            Inl e \<Rightarrow> (PNone, calls)
                          | Inr anomaly_mask \<Rightarrow>
                              let calls2 = calls @ [ClassifyDefects image_path anomaly_mask]
                              in (case classify_defects env image_path anomaly_mask of
                                    Inl e \<Rightarrow> (PNone, calls2)
                                  | Inr defect_result \<Rightarrow>
                                      if py_truthy defect_result then
                                        (case py_getitem defect_result ''detected_defects'' of
                                           Inl e \<Rightarrow> (PNone, calls2)
                                         | Inr dd \<Rightarrow>
                                             finish_result env image_path output_dir
                                               (dict_set
                                                  (dict_set result ''defect_classification''
                                                     defect_result)
                                                  ''detected_defect_types'' dd)
                                               calls2)
                                      else finish_result env image_path output_dir result
                                             calls2))
                       else finish_result env image_path output_dir
                              (dict_set result ''detected_defect_types'' (PList [])) calls))"

text \<open>How often the run invoked the classification (segmentation) stage.\<close>

fun is_classify :: "call \<Rightarrow> bool" where
  "is_classify (ClassifyDefects p m) = True"
| "is_classify _ = False"

definition classify_calls :: "call list \<Rightarrow> nat" where
  "classify_calls calls = length (filter is_classify calls)"


section \<open>Batch processing of a folder (process\_batch\_images)\<close>

text \<open>
  The summary dictionary has a fixed set of keys and is a record here. Its
  \<open>defect_types_found\<close> is a Python set and is a HOL set: the list the method finally
  turns it into has the set's elements in an order Python leaves open.
  \<open>avg_processing_time\<close> is added after the loop.
\<close>

record summary =
  total_images :: int
  good_products :: int
  defective_products :: int
  defect_types_found :: "pyval set"
  processing_times :: "pyval list"
  failed_processing :: int

record batch_summary = summary +
  avg_processing_time :: pyval



text \<open>\<open>k in x\<close> for a string \<open>k\<close>: a key of a dictionary, an element of a list, a
  substring of a string.\<close>

fun is_substring :: "string \<Rightarrow> string \<Rightarrow> bool" where
  "is_substring k [] = (k = [])"
| "is_substring k (c # s) = (take (length k) (c # s) = k \<or> is_substring k s)"

fun py_in :: "string \<Rightarrow> pyval \<Rightarrow> exn + bool" where
  "py_in k (PDict d) = Inr (map_of d k \<noteq> None)"
| "py_in k (PList xs) = Inr (PStr k \<in> set xs)"
| "py_in k (PStr s) = Inr (is_substring k s)"
| "py_in k _ = Inl TypeError"







section \<open>The detector and its thresholds (main.py, models/model\_loader.py)\<close>

text \<open>The loader and the detector, as far as \<open>is_ready\<close> reads them: a model or a
  processor is a flag that says whether the attribute is not \<open>None\<close>.\<close>

record model_loader =
  models_loaded :: bool
  anomalib_model :: bool
  hrnet_model :: bool

record detector =
  loader :: model_loader
  device :: string
  detection_core :: bool
  image_processor :: bool
  video_processor :: bool

definition loader_is_ready :: "model_loader \<Rightarrow> bool" where
  "loader_is_ready l = (models_loaded l \<and> anomalib_model l \<and> hrnet_model l)"

definition is_ready :: "detector \<Rightarrow> bool" where
  "is_ready d =
     (loader_is_ready (loader d) \<and> detection_core d \<and> image_processor d \<and> video_processor d)"

definition process_image :: "env \<Rightarrow> detector \<Rightarrow> string \<Rightarrow> string option \<Rightarrow> exn + pyval" where
  "process_image env d image_path output_dir =
     (if \<not> is_ready d then Inl RuntimeError
      else Inr (fst (process_single_image env image_path output_dir)))"

text \<open>
  The two thresholds are the module-level names \<open>ANOMALY_THRESHOLD\<close> and
  \<open>DEFECT_CONFIDENCE_THRESHOLD\<close> of main.py, bound by \<open>from config import *\<close> to the
  values of config.py and rebound by \<open>update_thresholds\<close> through its \<open>global\<close>
  statement. The update takes whatever value the caller passes.
\<close>

record thresholds =
  ANOMALY_THRESHOLD :: pyval
  DEFECT_CONFIDENCE_THRESHOLD :: pyval

definition config_thresholds :: thresholds where
  "config_thresholds =
     \<lparr>ANOMALY_THRESHOLD = PFloat (7 / 10), DEFECT_CONFIDENCE_THRESHOLD = PFloat (85 / 100)\<rparr>"

definition update_thresholds :: "thresholds \<Rightarrow> pyval \<Rightarrow> pyval \<Rightarrow> thresholds" where
  "update_thresholds g anomaly_threshold defect_threshold =
     (let g1 = (if anomaly_threshold \<noteq> PNone
                then g\<lparr>ANOMALY_THRESHOLD := anomaly_threshold\<rparr> else g)
      in if defect_threshold \<noteq> PNone
         then g1\<lparr>DEFECT_CONFIDENCE_THRESHOLD := defect_threshold\<rparr> else g1)"

text \<open>\<open>get_system_info\<close>. The class table of config.py has integer keys, written here
  as JSON writes them.\<close>

definition SPECIFIC_DEFECT_CLASSES :: pyval where
  "SPECIFIC_DEFECT_CLASSES =
     PDict [(''0'', PStr ''background''), (''1'', PStr ''damaged''),
            (''2'', PStr ''missing_component''), (''3'', PStr ''open''),
            (''4'', PStr ''scratch''), (''5'', PStr ''stained'')]"

definition get_system_info :: "thresholds \<Rightarrow> detector \<Rightarrow> pyval" where
  "get_system_info g d =
     PDict [(''device'', PStr (device d)),
            (''models_loaded'', PBool (loader_is_ready (loader d))),
            (''system_ready'', PBool (is_ready d)),
            (''anomaly_threshold'', ANOMALY_THRESHOLD g),
            (''defect_threshold'', DEFECT_CONFIDENCE_THRESHOLD g),
            (''supported_classes'', SPECIFIC_DEFECT_CLASSES)]"


section \<open>The API server (api\_server.py)\<close>

text \<open>
  A request, as far as the handlers read it: the uploaded files by field name, and
  \<open>request.json\<close>, whose evaluation may itself raise (a body that is not JSON). A handler
  answers with a JSON body and an HTTP status code, or lets an exception escape to the
  web framework.
\<close>

record request =
  req_files :: "(string \<times> string) list"
  req_json :: "exn + pyval"

datatype http = Reply pyval nat | Unhandled exn

definition error_reply :: "string \<Rightarrow> nat \<Rightarrow> http" where
  "error_reply msg code = Reply (PDict [(''error'', PStr msg)]) code"

definition detector_ready :: "detector option \<Rightarrow> bool" where
  "detector_ready det = (case det of None \<Rightarrow> False | Some d \<Rightarrow> is_ready d)"

definition health_check :: "env \<Rightarrow> detector option \<Rightarrow> http" where
  "health_check env det =
     Reply (PDict [(''status'', PStr ''ok''),
                   (''detector_ready'', PBool (detector_ready det)),
                   (''timestamp'', PStr (now_isoformat env []))]) 200"

definition system_info_endpoint :: "thresholds \<Rightarrow> detector option \<Rightarrow> http" where
  "system_info_endpoint g det =
     (case det of
        None \<Rightarrow> error_reply ''Detector not initialized'' 500
      | Some d \<Rightarrow>
          Reply (PDict [(''status'', PStr ''success''), (''data'', get_system_info g d)]) 200)"

text \<open>
  \<open>base64.b64decode\<close> of a string, as CPython computes it (\<open>binascii.a2b_base64\<close> in
  its default, non-strict mode). A string with a character outside ASCII is refused.
  Characters outside the base64 alphabet are skipped. Four alphabet characters give
  three bytes. A padding character \<open>=\<close> counts only after two or three characters of a
  group and ends the decoding once it completes the group, whatever follows. Input that
  ends inside a group is an error. The bytes are returned as characters.
\<close>

definition b64_alphabet :: string where
  "b64_alphabet = ''ABCDEFGHIJKLMNOPQRSTUVWXYZabcdefghijklmnopqrstuvwxyz0123456789+/''"

fun index_of :: "char \<Rightarrow> string \<Rightarrow> nat option" where
  "index_of c [] = None"
| "index_of c (x # xs) = (if x = c then Some 0 else map_option Suc (index_of c xs))"

fun a2b_base64 :: "string \<Rightarrow> nat \<Rightarrow> nat \<Rightarrow> nat \<Rightarrow> nat list \<Rightarrow> exn + nat list" where
  "a2b_base64 [] quad_pos pads leftchar bin_data =
     (if quad_pos = 0 then Inr bin_data
      else if quad_pos = 1 then Inl (External ''Invalid base64-encoded string'')
      else Inl (External ''Incorrect padding''))"
| "a2b_base64 (c # rest) quad_pos pads leftchar bin_data =
     (if c = CHR ''='' then
        (if 2 \<le> quad_pos then
           (if 4 \<le> quad_pos + (pads + 1) then Inr bin_data
            else a2b_base64 rest quad_pos (pads + 1) leftchar bin_data)
         else a2b_base64 rest quad_pos pads leftchar bin_data)
      else
        (case index_of c b64_alphabet of
           None \<Rightarrow> a2b_base64 rest quad_pos pads leftchar bin_data
         | Some this_ch \<Rightarrow>
             (if quad_pos = 0 then a2b_base64 rest 1 0 this_ch bin_data
              else if quad_pos = 1 then
                a2b_base64 rest 2 0 (this_ch mod 16)
                  (bin_data @ [leftchar * 4 + this_ch div 16])
              else if quad_pos = 2 then
                a2b_base64 rest 3 0 (this_ch mod 4)
                  (bin_data @ [leftchar * 16 + this_ch div 4])
              else
                a2b_base64 rest 0 0 0 (bin_data @ [leftchar * 64 + this_ch]))))"

definition base64_b64decode :: "string \<Rightarrow> exn + string" where
  "base64_b64decode s =
     (if list_all (\<lambda>c. of_char c < (128 :: nat)) s
      then (case a2b_base64 s 0 0 0 [] of
              Inl e \<Rightarrow> Inl e
            | Inr bin_data \<Rightarrow> Inr (map char_of bin_data))
      else Inl (External ''string argument should contain only ASCII characters''))"

text \<open>\<open>s.split(',')\<close> and the removal of a \<open>data:image...;base64,\<close> prefix.\<close>

fun split_on :: "char \<Rightarrow> string \<Rightarrow> string list" where
  "split_on c [] = [[]]"
| "split_on c (x # xs) =
     (if x = c then [] # split_on c xs
      else (case split_on c xs of w # ws \<Rightarrow> (x # w) # ws | [] \<Rightarrow> [[x]]))"

definition strip_data_prefix :: "string \<Rightarrow> exn + string" where
  "strip_data_prefix s =
     (if take 10 s = ''data:image''
      then (case split_on (CHR '','') s of a # b # rest \<Rightarrow> Inr b | _ \<Rightarrow> Inl IndexError)
      else Inr s)"

definition decode_image :: "env \<Rightarrow> pyval \<Rightarrow> exn + string" where
  "decode_image env v =
     (case v of
        PStr s \<Rightarrow> bind_res (strip_data_prefix s) (b64decode env)
      | _ \<Rightarrow> Inl AttributeError)"

text \<open>The input handling of \<open>detect_image\<close>: the image bytes, or nothing when the request
  carries neither a file nor a base64 string.\<close>

definition read_image :: "env \<Rightarrow> request \<Rightarrow> exn + string option" where
  "read_image env req =
     (case map_of (req_files req) ''image'' of
        Some image_data \<Rightarrow> Inr (Some image_data)
      | None \<Rightarrow>
          bind_res (req_json req) (\<lambda>j.
            if \<not> py_truthy j then Inr None
            else
              bind_res (py_in ''image_base64'' j) (\<lambda>has.
                if has then
                  bind_res (py_getitem j ''image_base64'') (\<lambda>base64_data.
                  bind_res (decode_image env base64_data) (\<lambda>image_data.
                    Inr (Some image_data)))
                else Inr None)))"

text \<open>
  \<open>detect_image\<close>. The \<open>except\<close> clause of the handler builds the name of the temporary
  file from \<open>temp_id\<close>, which is bound only after the input handling: an exception raised
  before that point makes the clause itself raise, and the exception escapes.
\<close>

definition detect_image :: "env \<Rightarrow> detector option \<Rightarrow> request \<Rightarrow> http" where
  "detect_image env det req =
     (case det of
        None \<Rightarrow> error_reply ''Detection system not ready'' 500
      | Some d \<Rightarrow>
          if \<not> is_ready d then error_reply ''Detection system not ready'' 500
          else
            (case read_image env req of
               Inl e \<Rightarrow> Unhandled UnboundLocalError
             | Inr None \<Rightarrow> error_reply ''No image provided'' 400
             | Inr (Some image_data) \<Rightarrow>
                 let temp_path = ''temp_'' @ uuid4 env 0 @ ''.jpg''
                 in (case write_file env temp_path image_data of
                       Some e \<Rightarrow> error_reply (str_exn e) 500
                     | None \<Rightarrow>
                         (case process_image env d temp_path None of
                            Inl e \<Rightarrow> error_reply (str_exn e) 500
                          | Inr result \<Rightarrow>
                              if py_truthy result then
                                (case format_flutter_response result of
                                   Inl e \<Rightarrow> error_reply (str_exn e) 500
                                 | Inr flutter_response \<Rightarrow> Reply flutter_response 200)
                              else error_reply ''Processing failed'' 500))))"

text \<open>Decimal digits of an index, for the name of a temporary file.\<close>

fun str_nat :: "nat \<Rightarrow> string" where
  "str_nat n =
     (if n < 10 then [char_of (48 + n)] else str_nat (n div 10) @ [char_of (48 + n mod 10)])"

text \<open>One iteration of the loop of \<open>batch_detect\<close>: the entry appended to \<open>results\<close>, or
  nothing when the image raised (the \<open>except\<close> clause continues with the next image) or
  gave no result.\<close>

definition batch_item :: "env \<Rightarrow> detector \<Rightarrow> nat \<Rightarrow> pyval \<Rightarrow> pyval option" where
  "batch_item env d idx image_b64 =
     (case decode_image env image_b64 of
        Inl e \<Rightarrow> None
      | Inr image_data \<Rightarrow>
          let temp_path = ''temp_batch_'' @ str_nat idx @ ''_'' @ uuid4 env idx @ ''.jpg''
          in (case write_file env temp_path image_data of
                Some e \<Rightarrow> None
              | None \<Rightarrow>
                  (case process_image env d temp_path None of
                     Inl e \<Rightarrow> None
                   | Inr result \<Rightarrow>
                       if py_truthy result then
                         (case format_flutter_response result of
                            Inl e \<Rightarrow> None
                          | Inr (PDict flutter_result) \<Rightarrow>
                              Some (PDict (dict_set flutter_result ''image_index''
                                             (PInt (int idx))))
                          | Inr _ \<Rightarrow> None)
                       else None)))"

fun batch_detect_loop ::
  "env \<Rightarrow> detector \<Rightarrow> nat \<Rightarrow> pyval list \<Rightarrow> pyval list \<Rightarrow> pyval list" where
  "batch_detect_loop env d idx [] results = results"
| "batch_detect_loop env d idx (image_b64 # rest) results =
     batch_detect_loop env d (Suc idx) rest
       (case batch_item env d idx image_b64 of
          None \<Rightarrow> results
        | Some flutter_result \<Rightarrow> results @ [flutter_result])"

text \<open>"Generate batch summary": the count of GOOD results and the reply. The defect
  rate is computed in floats: the quotient of the two integers is the double nearest to
  it, and so is its product with 100.\<close>

fun count_good :: "pyval list \<Rightarrow> exn + int" where
  "count_good [] = Inr 0"
| "count_good (r # rs) =
     bind_res (py_getitem r ''final_decision'') (\<lambda>fd.
     bind_res (count_good rs) (\<lambda>n.
       Inr ((if fd = PStr ''GOOD'' then 1 else 0) + n)))"

definition batch_reply :: "pyval list \<Rightarrow> exn + pyval" where
  "batch_reply results =
     (let total_images = int (length results)
      in bind_res (count_good results) (\<lambda>good_products.
           let defective_products = total_images - good_products
           in Inr (PDict
                [(''status'', PStr ''success''),
                 (''summary'',
                    PDict [(''total_images'', PInt total_images),
                           (''good_products'', PInt good_products),
                           (''defective_products'', PInt defective_products),
                           (''defect_rate'',
                              if total_images > 0
                              then PFloat (fl (fl (of_int defective_products
                                                   / of_int total_images) * 100))
                              else PInt 0)]),
                 (''results'', PList results)])))"

definition batch_detect_body :: "env \<Rightarrow> detector \<Rightarrow> request \<Rightarrow> exn + http" where
  "batch_detect_body env d req =
     bind_res (req_json req) (\<lambda>j.
       if \<not> py_truthy j then Inr (error_reply ''No images provided'' 400)
       else
         bind_res (py_in ''images'' j) (\<lambda>has.
           if \<not> has then Inr (error_reply ''No images provided'' 400)
           else
             bind_res (py_get j ''images'' (PList [])) (\<lambda>images_data.
               if \<not> py_truthy images_data then Inr (error_reply ''No images provided'' 400)
               else
                 bind_res (py_iter images_data) (\<lambda>images.
                 bind_res (batch_reply (batch_detect_loop env d 0 images [])) (\<lambda>body.
                   Inr (Reply body 200))))))"

definition batch_detect :: "env \<Rightarrow> detector option \<Rightarrow> request \<Rightarrow> http" where
  "batch_detect env det req =
     (case det of
        None \<Rightarrow> error_reply ''Detection system not ready'' 500
      | Some d \<Rightarrow>
          if \<not> is_ready d then error_reply ''Detection system not ready'' 500
          else
            (case batch_detect_body env d req of
               Inl e \<Rightarrow> error_reply (str_exn e) 500
             | Inr reply \<Rightarrow> reply))"

text \<open>The threshold endpoint, with the thresholds it leaves behind.\<close>

definition update_thresholds_endpoint ::
  "thresholds \<Rightarrow> detector option \<Rightarrow> request \<Rightarrow> http \<times> thresholds" where
  "update_thresholds_endpoint g det req =
     (case det of
        None \<Rightarrow> (error_reply ''Detector not initialized'' 500, g)
      | Some d \<Rightarrow>
          (case req_json req of
             Inl e \<Rightarrow> (error_reply (str_exn e) 500, g)
           | Inr data \<Rightarrow>
               if \<not> py_truthy data then (error_reply ''No data provided'' 400, g)
               else
                 (case bind_res (py_get data ''anomaly_threshold'' PNone) (\<lambda>a.
                       bind_res (py_get data ''defect_threshold'' PNone) (\<lambda>b. Inr (a, b))) of
                    Inl e \<Rightarrow> (error_reply (str_exn e) 500, g)
                  | Inr (anomaly_threshold, defect_threshold) \<Rightarrow>
                      (Reply (PDict [(''status'', PStr ''success''),
                                     (''message'', PStr ''Thresholds updated successfully'')])
                         200,
                       update_thresholds g anomaly_threshold defect_threshold))))"


section \<open>Notions the properties are stated with\<close>

subsection \<open>Reading a response back\<close>

text \<open>The fields of a bounding box that the external schema carries besides the defect
  type.\<close>

definition bbox_fields :: "string list" where
  "bbox_fields = [''x'', ''y'', ''width'', ''height'', ''center_x'', ''center_y'', ''area'']"

text \<open>The flattening as the specification words it: the boxes of the per-type mapping in
  one sequence, type by type in the mapping's order, each box paired with its type.\<close>

definition tagged_boxes :: "(string \<times> pyval) list \<Rightarrow> (string \<times> pyval) list" where
  "tagged_boxes items =
     concat (map (\<lambda>(defect_type, bboxes).
                    map (Pair defect_type)
                      (case py_iter bboxes of Inr bs \<Rightarrow> bs | Inl e \<Rightarrow> []))
                 items)"

text \<open>The tagged boxes of an internal result: those of its classification when it has
  one, none otherwise.\<close>

definition source_boxes :: "pyval \<Rightarrow> (string \<times> pyval) list" where
  "source_boxes result =
     (case py_get result ''defect_classification'' PNone of
        Inr c \<Rightarrow>
          if py_truthy c then
            (case py_get c ''bounding_boxes'' (PDict []) of
               Inr (PDict items) \<Rightarrow> tagged_boxes items
             | _ \<Rightarrow> [])
          else []
      | Inl e \<Rightarrow> [])"

text \<open>An external box \<open>e\<close> carries the tagged internal box \<open>tb\<close>: its \<open>defect_type\<close> is the
  tag, and each of the seven fields reads back the value the internal box has.\<close>

definition projects :: "pyval \<Rightarrow> string \<times> pyval \<Rightarrow> bool" where
  "projects e tb =
     (py_getitem e ''defect_type'' = Inr (PStr (fst tb)) \<and>
      list_all (\<lambda>k. py_getitem e k = py_getitem (snd tb) k \<and> \<not> isl (py_getitem e k))
        bbox_fields)"

text \<open>A field of the \<open>summary\<close> object of a batch reply, and of the \<open>anomaly_detection\<close>
  object of a detection reply.\<close>

definition summary_field :: "pyval \<Rightarrow> string \<Rightarrow> exn + pyval" where
  "summary_field body k = bind_res (py_getitem body ''summary'') (\<lambda>s. py_getitem s k)"

definition anomaly_field :: "pyval \<Rightarrow> string \<Rightarrow> exn + pyval" where
  "anomaly_field body k = bind_res (py_getitem body ''anomaly_detection'') (\<lambda>a. py_getitem a k)"

subsection \<open>Folding outcomes\<close>













text \<open>The entries of the API batch loop, one per image, \<open>None\<close> for a skipped image.\<close>

fun batch_items :: "env \<Rightarrow> detector \<Rightarrow> nat \<Rightarrow> pyval list \<Rightarrow> pyval option list" where
  "batch_items env d idx [] = []"
| "batch_items env d idx (image_b64 # rest) =
     batch_item env d idx image_b64 # batch_items env d (Suc idx) rest"

subsection \<open>The status of a reply\<close>

definition reply_status :: "http \<Rightarrow> pyval option" where
  "reply_status h =
     (case h of
        Reply (PDict body) code \<Rightarrow> map_of body ''status''
      | _ \<Rightarrow> None)"


definition reply_code :: "http \<Rightarrow> nat option" where
  "reply_code h = (case h of Reply body code \<Rightarrow> Some code | Unhandled e \<Rightarrow> None)"

definition reply_error :: "http \<Rightarrow> pyval option" where
  "reply_error h =
     (case h of
        Reply (PDict body) code \<Rightarrow> map_of body ''error''
      | _ \<Rightarrow> None)"

text \<open>The two forms of reply the handlers construct: HTTP 200 with a \<open>status\<close> field
  that is \<open>success\<close> or \<open>error\<close>, or HTTP 400 or 500 with an \<open>error\<close> field and no
  \<open>status\<close> field.\<close>

definition api_reply_ok :: "http \<Rightarrow> bool" where
  "api_reply_ok h =
     (reply_code h = Some 200 \<and>
        (reply_status h = Some (PStr ''success'') \<or> reply_status h = Some (PStr ''error'')) \<or>
      (reply_code h = Some 400 \<or> reply_code h = Some 500) \<and>
        reply_status h = None \<and> reply_error h \<noteq> None)"

subsection \<open>Sample data\<close>

definition sample_bbox :: "string \<Rightarrow> int \<Rightarrow> int \<Rightarrow> int \<Rightarrow> int \<Rightarrow> int \<Rightarrow> pyval" where
  "sample_bbox defect_type class_id x y w h =
     PDict [(''x'', PInt x), (''y'', PInt y), (''width'', PInt w), (''height'', PInt h),
            (''center_x'', PInt (x + w div 2)), (''center_y'', PInt (y + h div 2)),
            (''area'', PInt (w * h)), (''defect_type'', PStr defect_type),
            (''class_id'', PInt class_id)]"

definition sample_classification :: pyval where
  "sample_classification =
     PDict [(''detected_defects'', PList [PStr ''open'', PStr ''scratch'']),
            (''bounding_boxes'',
               PDict [(''open'',
                         PList [sample_bbox ''open'' 3 10 20 15 10,
                                sample_bbox ''open'' 3 40 50 20 10]),
                      (''scratch'', PList [sample_bbox ''scratch'' 4 5 5 30 4])])]"

definition sample_anomaly :: "rat \<Rightarrow> string \<Rightarrow> pyval" where
  "sample_anomaly score decision =
     PDict [(''anomaly_score'', PFloat score), (''decision'', PStr decision),
            (''threshold_used'', PFloat (7 / 10)), (''anomaly_mask'', PNone)]"

text \<open>A sample environment: the image named \<open>good.jpg\<close> scores 0.1 and takes half a
  second (every other image takes 1.235 seconds), the anomaly model fails on \<open>broken.jpg\<close>, every other image scores 0.87654321 and is a defect; the
  classification stage gives nothing for \<open>unclassified.jpg\<close>; base64 strings
  decode as Python decodes them (\<open>aGk=\<close> is the two bytes \<open>hi\<close>, and \<open>abc\<close> does not
  decode: its padding is missing).\<close>

definition sample_env :: env where
  "sample_env =
     \<lparr>detect_anomaly =
        (\<lambda>p. if p = ''good.jpg'' then Inr (sample_anomaly (1 / 10) ''GOOD'')
             else if p = ''broken.jpg'' then Inl (External ''inference failed'')
             else Inr (sample_anomaly (87654321 / 100000000) ''DEFECT'')),
      classify_defects =
        (\<lambda>p m. if p = ''unclassified.jpg'' then Inr PNone else Inr sample_classification),
      create_visualization = (\<lambda>r d. PStr (d @ ''/analysis.png'')),
      save_analysis_report = (\<lambda>r d. Inr (PStr (d @ ''/report.json''))),
      time_start = (\<lambda>p. 0),
      time_end = (\<lambda>p. if p = ''good.jpg'' then 1 / 2 else fl (1235 / 1000)),
      now_isoformat = (\<lambda>p. ''2024-01-01T00:00:00''),
      b64decode = base64_b64decode,
      write_file = (\<lambda>p d. None),
      uuid4 = (\<lambda>i. ''u''),
      dump_summary = (\<lambda>p. None)\<rparr>"

definition ready_detector :: detector where
  "ready_detector =
     \<lparr>loader = \<lparr>models_loaded = True, anomalib_model = True, hrnet_model = True\<rparr>,
      device = ''cpu'', detection_core = True, image_processor = True,
      video_processor = True\<rparr>"

definition json_request :: "pyval \<Rightarrow> request" where
  "json_request j = \<lparr>req_files = [], req_json = Inr j\<rparr>"


section \<open>Properties\<close>

subsection \<open>Auxiliary facts\<close>

lemma bind_res_eq_Inr: "bind_res m f = Inr v \<longleftrightarrow> (\<exists>x. m = Inr x \<and> f x = Inr v)"
  by (cases m) auto

lemma bind_res_eq_Inl:
  "bind_res m f = Inl e \<longleftrightarrow> (m = Inl e \<or> (\<exists>x. m = Inr x \<and> f x = Inl e))"
  by (cases m) auto

lemma round_half_even_close: "\<bar>of_int (round_half_even x) - x\<bar> \<le> 1 / 2"
proof -
  have "of_int \<lfloor>x\<rfloor> \<le> x" "x < of_int \<lfloor>x\<rfloor> + 1" by linarith+
  then show ?thesis
    by (auto simp: round_half_even_def Let_def abs_le_iff)
qed

lemma round_decimals_close: "\<bar>round_decimals x n - x\<bar> \<le> 1 / (2 * 10 ^ n)"
proof -
  have "round_decimals x n - x = (of_int (round_half_even (x * 10 ^ n)) - x * 10 ^ n) / 10 ^ n"
    by (simp add: round_decimals_def field_simps)
  then have "\<bar>round_decimals x n - x\<bar>
               = \<bar>of_int (round_half_even (x * 10 ^ n)) - x * 10 ^ n\<bar> / 10 ^ n"
    by simp
  also have "\<dots> \<le> (1 / 2) / 10 ^ n"
    by (rule divide_right_mono[OF round_half_even_close]) simp
  finally show ?thesis by simp
qed

lemma bit_length_bounds:
  "0 < n \<Longrightarrow> 1 \<le> bit_length n \<and> 2 ^ nat (bit_length n - 1) \<le> n \<and> n < 2 ^ nat (bit_length n)"
proof (induction n rule: bit_length.induct)
  case (1 n)
  have bl: "bit_length n = 1 + bit_length (n div 2)"
    using 1(2) by (subst bit_length.simps) simp
  show ?case
  proof (cases "n div 2 = 0")
    case True
    with 1 have "n = 1" by presburger
    then show ?thesis by (simp add: bit_length.simps)
  next
    case False
    with 1 have pos: "0 < n div 2" by presburger
    with 1 have ih: "1 \<le> bit_length (n div 2)"
      "2 ^ nat (bit_length (n div 2) - 1) \<le> n div 2"
      "n div 2 < 2 ^ nat (bit_length (n div 2))"
      by auto
    define m where "m = nat (bit_length (n div 2) - 1)"
    have h: "bit_length (n div 2) = int m + 1" using ih(1) by (simp add: m_def)
    have n: "bit_length n = int m + 2" using bl h by simp
    have e1: "nat (bit_length n - 1) = Suc m" "nat (bit_length n) = Suc (Suc m)"
      "nat (bit_length (n div 2)) = Suc m"
      using n h by simp_all
    from ih(2) have lo: "(2::int) ^ m \<le> n div 2" by (simp add: m_def)
    from ih(3) have hi: "n div 2 < (2::int) ^ Suc m" by (simp only: e1)
    have lo2: "(2::int) ^ Suc m \<le> n" using lo by simp
    have hi2: "n < (2::int) ^ Suc (Suc m)" using hi by simp
    have one: "1 \<le> bit_length n" using n by simp
    have two: "2 ^ nat (bit_length n - 1) \<le> n" unfolding e1 by (rule lo2)
    have three: "n < 2 ^ nat (bit_length n)" unfolding e1 by (rule hi2)
    from one two three show ?thesis by (intro conjI)
  qed
qed

lemma quotient_of_abs_pos:
  assumes "x \<noteq> 0" "quotient_of \<bar>x\<bar> = (a, b)"
  shows "0 < a" "0 < b" "\<bar>x\<bar> = of_int a / of_int b"
proof -
  show b: "0 < b" using assms(2) by (rule quotient_of_denom_pos)
  show eq: "\<bar>x\<bar> = of_int a / of_int b" using assms(2) by (rule quotient_of_div)
  have "0 < \<bar>x\<bar>" using assms(1) by simp
  with eq b show "0 < a" by (simp add: zero_less_divide_iff)
qed

lemma float_exponent_bounds:
  assumes "x \<noteq> 0"
  shows "2 powi float_exponent x \<le> \<bar>x\<bar>" and "\<bar>x\<bar> < 2 powi (float_exponent x + 1)"
proof -
  obtain a b where q: "quotient_of \<bar>x\<bar> = (a, b)" by (cases "quotient_of \<bar>x\<bar>")
  note ab = quotient_of_abs_pos[OF assms q]
  define la where "la = bit_length a"
  define lb where "lb = bit_length b"
  from bit_length_bounds[OF ab(1)] have a: "1 \<le> la" "2 ^ nat (la - 1) \<le> a" "a < 2 ^ nat la"
    by (simp_all add: la_def)
  from bit_length_bounds[OF ab(2)] have b: "1 \<le> lb" "2 ^ nat (lb - 1) \<le> b" "b < 2 ^ nat lb"
    by (simp_all add: lb_def)
  have pa: "(2::rat) powi (la - 1) \<le> of_int a" "of_int a < (2::rat) powi la"
  proof -
    have "(2::rat) powi (la - 1) = of_int (2 ^ nat (la - 1))"
      using a(1) by (simp add: power_int_def)
    also have "\<dots> \<le> of_int a" using a(2) by (simp only: of_int_le_iff)
    finally show "(2::rat) powi (la - 1) \<le> of_int a" .
    have "(of_int a :: rat) < of_int (2 ^ nat la)" using a(3) by (simp only: of_int_less_iff)
    also have "\<dots> = (2::rat) powi la" using a(1) by (simp add: power_int_def)
    finally show "of_int a < (2::rat) powi la" .
  qed
  have pb: "(2::rat) powi (lb - 1) \<le> of_int b" "of_int b < (2::rat) powi lb"
  proof -
    have "(2::rat) powi (lb - 1) = of_int (2 ^ nat (lb - 1))"
      using b(1) by (simp add: power_int_def)
    also have "\<dots> \<le> of_int b" using b(2) by (simp only: of_int_le_iff)
    finally show "(2::rat) powi (lb - 1) \<le> of_int b" .
    have "(of_int b :: rat) < of_int (2 ^ nat lb)" using b(3) by (simp only: of_int_less_iff)
    also have "\<dots> = (2::rat) powi lb" using b(1) by (simp add: power_int_def)
    finally show "of_int b < (2::rat) powi lb" .
  qed
  have bpos: "(0::rat) < of_int b" using ab(2) by simp
  have apos: "(0::rat) < of_int a" using ab(1) by simp
  have lo: "(2::rat) powi (la - lb - 1) \<le> \<bar>x\<bar>"
  proof -
    have "(2::rat) powi (la - lb - 1) * of_int b \<le> 2 powi (la - lb - 1) * 2 powi lb"
      using pb(2) by (intro mult_left_mono) simp_all
    also have "\<dots> = 2 powi (la - 1)"
      by (simp add: power_int_add[symmetric])
    also have "\<dots> \<le> of_int a" by (rule pa(1))
    finally show ?thesis using bpos by (simp add: ab(3) pos_le_divide_eq)
  qed
  have hi: "\<bar>x\<bar> < (2::rat) powi (la - lb + 1)"
  proof -
    have "of_int a < (2::rat) powi la" by (rule pa(2))
    also have "\<dots> = 2 powi (la - lb + 1) * 2 powi (lb - 1)"
      by (simp add: power_int_add[symmetric])
    also have "\<dots> \<le> 2 powi (la - lb + 1) * of_int b"
      using pb(1) by (intro mult_left_mono) simp_all
    finally show ?thesis using bpos by (simp add: ab(3) pos_divide_less_eq)
  qed
  have fe: "float_exponent x = (if 2 powi (la - lb) \<le> \<bar>x\<bar> then la - lb else la - lb - 1)"
    by (simp add: float_exponent_def q la_def lb_def)
  show "2 powi float_exponent x \<le> \<bar>x\<bar>"
    using lo by (simp add: fe)
  show "\<bar>x\<bar> < 2 powi (float_exponent x + 1)"
    using hi by (auto simp: fe not_le)
qed

lemma fl_error:
  assumes "\<bar>x\<bar> \<le> 2 powi k" and "- 1022 \<le> k"
  shows "\<bar>fl x - x\<bar> \<le> 2 powi (k - 53)"
proof (cases "x = 0")
  case True
  then show ?thesis by (simp add: fl_def)
next
  case False
  define e where "e = float_exponent x"
  define q :: rat where "q = 2 powi (max (e - 52) (- 1074))"
  have qpos: "0 < q" by (simp add: q_def)
  from float_exponent_bounds(1)[OF False] assms(1) have "(2::rat) powi e \<le> 2 powi k"
    by (simp add: e_def)
  then have "e \<le> k"
    using power_int_strict_increasing[of k e "2::rat"] by (cases "e \<le> k") simp_all
  with assms(2) have "max (e - 52) (- 1074) \<le> k - 52" by simp
  then have qle: "q \<le> 2 powi (k - 52)"
    unfolding q_def by (intro power_int_increasing) simp_all
  have "fl x - x = (of_int (round_half_even (x / q)) - x / q) * q"
    using False qpos by (simp add: fl_def Let_def q_def e_def field_simps)
  then have "\<bar>fl x - x\<bar> = \<bar>of_int (round_half_even (x / q)) - x / q\<bar> * q"
    using qpos by (simp add: abs_mult)
  also have "\<dots> \<le> (1 / 2) * q"
    using qpos by (intro mult_right_mono round_half_even_close) simp
  also have "\<dots> \<le> (1 / 2) * 2 powi (k - 52)"
    using qle by simp
  also have "\<dots> = 2 powi (k - 53)"
  proof -
    have "(2::rat) powi ((k - 53) + 1) = 2 powi (k - 53) * 2 powi 1"
      by (rule power_int_add) simp
    moreover have "(k - 53) + 1 = k - 52" by simp
    ultimately have "(2::rat) powi (k - 52) = 2 powi (k - 53) * 2" by simp
    then show ?thesis by simp
  qed
  finally show ?thesis .
qed

lemma percent_error:
  assumes "0 \<le> d" "d \<le> t" "0 < t"
  shows "\<bar>fl (fl (of_int d / of_int t) * 100) - of_int d / of_int t * 100\<bar> \<le> 1 / 2 ^ 45"
proof -
  define r :: rat where "r = of_int d / of_int t"
  have r: "0 \<le> r" "r \<le> 1" using assms by (simp_all add: r_def)
  then have r0: "\<bar>r\<bar> \<le> 2 powi 0" by simp
  have p53: "(2::rat) powi (- 53) = 1 / 2 ^ 53" and p46: "(2::rat) powi (- 46) = 1 / 2 ^ 46"
    and p7: "(2::rat) powi 7 = 128"
    by (simp_all add: power_int_minus_divide)
  from fl_error[OF r0] have "\<bar>fl r - r\<bar> \<le> 2 powi (- 53)" by simp
  then have e1': "\<bar>fl r - r\<bar> \<le> 1 / 2 ^ 53" by (simp only: p53)
  have "\<bar>fl r\<bar> \<le> 1 + 1 / 2 ^ 53" using e1' r by linarith
  then have "\<bar>fl r\<bar> * 100 \<le> (1 + 1 / 2 ^ 53) * 100" by (intro mult_right_mono) simp_all
  then have "\<bar>fl r * 100\<bar> \<le> (1 + 1 / 2 ^ 53) * 100" by (simp add: abs_mult)
  also have "\<dots> \<le> 2 powi 7" unfolding p7 by simp
  finally have "\<bar>fl (fl r * 100) - fl r * 100\<bar> \<le> 2 powi (7 - 53)"
    by (rule fl_error) simp
  then have e2: "\<bar>fl (fl r * 100) - fl r * 100\<bar> \<le> 1 / 2 ^ 46" by (simp add: p46)
  have "fl (fl r * 100) - r * 100 = (fl (fl r * 100) - fl r * 100) + (fl r - r) * 100"
    by (simp add: algebra_simps)
  then have "\<bar>fl (fl r * 100) - r * 100\<bar>
               \<le> \<bar>fl (fl r * 100) - fl r * 100\<bar> + \<bar>(fl r - r) * 100\<bar>"
    by (simp only: abs_triangle_ineq)
  moreover have "\<bar>(fl r - r) * 100\<bar> = \<bar>fl r - r\<bar> * 100"
    by (simp only: abs_mult abs_numeral)
  ultimately have "\<bar>fl (fl r * 100) - r * 100\<bar>
               \<le> \<bar>fl (fl r * 100) - fl r * 100\<bar> + \<bar>fl r - r\<bar> * 100"
    by (simp only:)
  also have "\<dots> \<le> 1 / 2 ^ 46 + (1 / 2 ^ 53) * 100"
    using e1' e2 by (intro add_mono mult_right_mono) simp_all
  also have "\<dots> \<le> 1 / 2 ^ 45" by simp
  finally show ?thesis by (simp add: r_def)
qed

lemma py_round_float:
  "\<exists>k::int. py_round (PFloat x) n = Inr (PFloat (of_int k / 10 ^ n)) \<and>
            \<bar>of_int k / 10 ^ n - x\<bar> \<le> 1 / (2 * 10 ^ n)"
  using round_decimals_close[of x n] by (auto simp: round_decimals_def)

lemma bbox_entry_projects:
  assumes "bbox_entry t b = Inr e"
  shows "projects e (t, b)"
  using assms
  by (auto simp: bbox_entry_def bind_res_eq_Inr projects_def bbox_fields_def)

lemma append_bboxes_projects:
  "append_bboxes t bs acc = Inr out \<Longrightarrow>
     \<exists>new. out = acc @ new \<and> list_all2 projects new (map (Pair t) bs)"
proof (induction bs arbitrary: acc)
  case Nil
  then show ?case by simp
next
  case (Cons b bs)
  from Cons.prems obtain e where e: "bbox_entry t b = Inr e"
    and rest: "append_bboxes t bs (acc @ [e]) = Inr out"
    by (auto simp: bind_res_eq_Inr)
  from Cons.IH[OF rest] obtain new where "out = (acc @ [e]) @ new"
    and "list_all2 projects new (map (Pair t) bs)" by blast
  with bbox_entry_projects[OF e] show ?case by simp
qed

lemma simplify_bboxes_projects:
  "simplify_bboxes items acc = Inr out \<Longrightarrow>
     \<exists>new. out = acc @ new \<and> list_all2 projects new (tagged_boxes items)"
proof (induction items arbitrary: acc)
  case Nil
  then show ?case by (simp add: tagged_boxes_def)
next
  case (Cons p items)
  obtain t v where p: "p = (t, v)" by (cases p)
  from Cons.prems p obtain bs acc' where it: "py_iter v = Inr bs"
    and ap: "append_bboxes t bs acc = Inr acc'"
    and rest: "simplify_bboxes items acc' = Inr out"
    by (auto simp: bind_res_eq_Inr)
  from append_bboxes_projects[OF ap] obtain n1 where n1: "acc' = acc @ n1"
    "list_all2 projects n1 (map (Pair t) bs)" by blast
  from Cons.IH[OF rest] obtain n2 where n2: "out = acc' @ n2"
    "list_all2 projects n2 (tagged_boxes items)" by blast
  have "tagged_boxes (p # items) = map (Pair t) bs @ tagged_boxes items"
    by (simp add: tagged_boxes_def p it)
  with n1 n2 show ?case by (auto intro: list_all2_appendI)
qed

lemma add_classification_boxes:
  assumes "add_classification r = Inr (dc, boxes)"
  shows "list_all2 projects boxes (source_boxes r)"
proof -
  from assms obtain c where c: "py_get r ''defect_classification'' PNone = Inr c"
    by (auto simp: add_classification_def bind_res_eq_Inr)
  show ?thesis
  proof (cases "py_truthy c")
    case False
    with assms c show ?thesis by (simp add: add_classification_def source_boxes_def)
  next
    case True
    with assms c obtain defect_result bb items where
      dr: "py_getitem r ''defect_classification'' = Inr defect_result"
      and bb: "py_get defect_result ''bounding_boxes'' (PDict []) = Inr bb"
      and it: "py_items bb = Inr items"
      and sb: "simplify_bboxes items [] = Inr boxes"
      by (auto simp: add_classification_def bind_res_eq_Inr)
    from c dr have "defect_result = c"
      by (cases r) (auto split: option.splits)
    moreover from it have "bb = PDict items" by (cases bb) auto
    ultimately have "source_boxes r = tagged_boxes items"
      using c True bb by (simp add: source_boxes_def)
    with simplify_bboxes_projects[OF sb] show ?thesis by simp
  qed
qed

lemma format_body_InrD:
  assumes "format_body r = Inr resp"
  obtains fd pt pt2 ts ad sc sc4 dec thr ddt cnt dc boxes where
    "py_getitem r ''final_decision'' = Inr fd"
    "py_getitem r ''processing_time'' = Inr pt" "py_round pt 2 = Inr pt2"
    "py_getitem r ''timestamp'' = Inr ts"
    "py_getitem r ''anomaly_detection'' = Inr ad"
    "py_getitem ad ''anomaly_score'' = Inr sc" "py_round sc 4 = Inr sc4"
    "py_getitem ad ''decision'' = Inr dec"
    "py_getitem ad ''threshold_used'' = Inr thr"
    "py_get r ''detected_defect_types'' (PList []) = Inr ddt" "py_len ddt = Inr cnt"
    "add_classification r = Inr (dc, boxes)"
    "resp = PDict [(''status'', PStr ''success''),
                   (''final_decision'', fd),
                   (''processing_time'', pt2),
                   (''timestamp'', ts),
                   (''anomaly_detection'',
                      PDict [(''anomaly_score'', sc4), (''decision'', dec),
                             (''threshold_used'', thr)]),
                   (''defect_classification'', dc),
                   (''detected_defects'', ddt),
                   (''defect_count'', PInt cnt),
                   (''bounding_boxes'', PList boxes)]"
  using assms unfolding format_body_def bind_res_eq_Inr
  by (auto split: prod.splits)

lemma format_flutter_response_cases:
  assumes "format_flutter_response r = Inr resp"
  shows "format_body r = Inr resp \<or> (\<exists>e. format_body r = Inl e \<and> resp = error_object e)"
  using assms by (auto simp: format_flutter_response_def split: sum.splits)

lemma error_object_status: "py_getitem (error_object e) ''status'' = Inr (PStr ''error'')"
  by (simp add: error_object_def)

lemma format_body_status:
  "format_body r = Inr resp \<Longrightarrow> py_getitem resp ''status'' = Inr (PStr ''success'')"
  by (erule format_body_InrD) simp

lemma format_success_body:
  assumes "format_flutter_response r = Inr resp"
    and "py_getitem resp ''status'' = Inr (PStr ''success'')"
  shows "format_body r = Inr resp"
  using format_flutter_response_cases[OF assms(1)] assms(2)
  by (auto simp: error_object_status)

lemma format_flutter_response_never_fails:
  "\<exists>resp. format_flutter_response result = Inr resp"
  by (simp add: format_flutter_response_def split: sum.splits)

lemma format_has_final_decision:
  assumes "format_flutter_response r = Inr resp"
  shows "\<exists>d fd. resp = PDict d \<and> map_of d ''final_decision'' = Some fd"
  using format_flutter_response_cases[OF assms]
proof
  assume "format_body r = Inr resp"
  then show ?thesis by (rule format_body_InrD) simp
next
  assume "\<exists>e. format_body r = Inl e \<and> resp = error_object e"
  then show ?thesis by (auto simp: error_object_def)
qed

subsection \<open>Sample runs\<close>

lemma sample_defect_run:
  "fst (process_single_image sample_env ''x.jpg'' None) =
     PDict
      [(''image_path'', PStr ''x.jpg''),
       (''timestamp'', PStr ''2024-01-01T00:00:00''),
       (''anomaly_detection'', sample_anomaly (87654321 / 100000000) ''DEFECT''),
       (''defect_classification'', sample_classification),
       (''processing_time'', PFloat (fl (1235 / 1000))),
       (''final_decision'', PStr ''DEFECT''),
       (''detected_defect_types'', PList [PStr ''open'', PStr ''scratch'']),
       (''visualization_path'', PStr ''outputs/analysis.png''),
       (''report_path'', PStr ''outputs/report.json'')]"
  by code_simp

lemma sample_unclassified_run:
  "fst (process_single_image sample_env ''unclassified.jpg'' None) =
     PDict
      [(''image_path'', PStr ''unclassified.jpg''),
       (''timestamp'', PStr ''2024-01-01T00:00:00''),
       (''anomaly_detection'', sample_anomaly (87654321 / 100000000) ''DEFECT''),
       (''defect_classification'', PNone),
       (''processing_time'', PFloat (fl (1235 / 1000))),
       (''final_decision'', PStr ''DEFECT''),
       (''visualization_path'', PStr ''outputs/analysis.png''),
       (''report_path'', PStr ''outputs/report.json'')]"
  by code_simp

lemma sample_defect_format:
  "format_flutter_response (fst (process_single_image sample_env ''x.jpg'' None)) =
     Inr (PDict
       [(''status'', PStr ''success''),
        (''final_decision'', PStr ''DEFECT''),
        (''processing_time'', PFloat (124 / 100)),
        (''timestamp'', PStr ''2024-01-01T00:00:00''),
        (''anomaly_detection'',
           PDict [(''anomaly_score'', PFloat (8765 / 10000)), (''decision'', PStr ''DEFECT''),
                  (''threshold_used'', PFloat (7 / 10))]),
        (''defect_classification'',
           PDict [(''detected_defects'', PList [PStr ''open'', PStr ''scratch'']),
                  (''total_defect_types'', PInt 2)]),
        (''detected_defects'', PList [PStr ''open'', PStr ''scratch'']),
        (''defect_count'', PInt 2),
        (''bounding_boxes'',
           PList
            [PDict [(''defect_type'', PStr ''open''), (''x'', PInt 10), (''y'', PInt 20),
                    (''width'', PInt 15), (''height'', PInt 10), (''center_x'', PInt 17),
                    (''center_y'', PInt 25), (''area'', PInt 150)],
             PDict [(''defect_type'', PStr ''open''), (''x'', PInt 40), (''y'', PInt 50),
                    (''width'', PInt 20), (''height'', PInt 10), (''center_x'', PInt 50),
                    (''center_y'', PInt 55), (''area'', PInt 200)],
             PDict [(''defect_type'', PStr ''scratch''), (''x'', PInt 5), (''y'', PInt 5),
                    (''width'', PInt 30), (''height'', PInt 4), (''center_x'', PInt 20),
                    (''center_y'', PInt 7), (''area'', PInt 120)]])])"
  by code_simp

subsection \<open>The response formatter\<close>

text \<open>
  C6. For every internal result, well-formed or not, the formatter returns an object and
  raises nothing; the object's \<open>status\<close> is \<open>success\<close> or \<open>error\<close>, and whenever the
  projection fails with an exception the object is the error object, whose \<open>status\<close> is
  \<open>error\<close>.
\<close>

theorem format_flutter_response_never_raises:
  "\<exists>resp. format_flutter_response result = Inr resp \<and>
     (py_getitem resp ''status'' = Inr (PStr ''success'') \<or>
      py_getitem resp ''status'' = Inr (PStr ''error'')) \<and>
     (\<forall>e. format_body result = Inl e \<longrightarrow>
          resp = error_object e \<and> py_getitem resp ''status'' = Inr (PStr ''error''))"
proof (cases "format_body result")
  case (Inl e)
  then show ?thesis
    by (simp add: format_flutter_response_def error_object_status)
next
  case (Inr resp)
  then show ?thesis
    by (simp add: format_flutter_response_def format_body_status)
qed

theorem format_flutter_response_never_raises_witness:
  "format_body (PDict []) = Inl (KeyError ''final_decision'') \<and>
   format_body (PList [PInt 1]) = Inl TypeError \<and>
   format_body (PDict [(''final_decision'', PStr ''GOOD''), (''processing_time'', PStr ''fast'')])
     = Inl TypeError \<and>
   (\<exists>resp. format_flutter_response (PDict []) = Inr resp \<and>
           resp = error_object (KeyError ''final_decision'') \<and>
           py_getitem resp ''status'' = Inr (PStr ''error'')) \<and>
   (\<exists>resp. format_flutter_response (PList [PInt 1]) = Inr resp \<and>
           py_getitem resp ''status'' = Inr (PStr ''error'')) \<and>
   (\<exists>resp. format_flutter_response
             (PDict [(''final_decision'', PStr ''GOOD''), (''processing_time'', PStr ''fast'')])
           = Inr resp \<and>
           py_getitem resp ''status'' = Inr (PStr ''error''))"
proof -
  have a: "format_body (PDict []) = Inl (KeyError ''final_decision'')"
    by (simp add: format_body_def)
  have b: "format_body (PList [PInt 1]) = Inl TypeError"
    by (simp add: format_body_def)
  have c: "format_body (PDict [(''final_decision'', PStr ''GOOD''),
                               (''processing_time'', PStr ''fast'')]) = Inl TypeError"
    by (simp add: format_body_def)
  show ?thesis
    using a b c
      format_flutter_response_never_raises[of "PDict []"]
      format_flutter_response_never_raises[of "PList [PInt 1]"]
      format_flutter_response_never_raises[of "PDict [(''final_decision'', PStr ''GOOD''),
                               (''processing_time'', PStr ''fast'')]"]
    by auto
qed

text \<open>
  C10. In every successful response of the formatter, \<open>defect_count\<close> is the length of the
  \<open>detected_defects\<close> value of that response, and that value is the result's
  \<open>detected_defect_types\<close>, the empty list when the result has no such key.
\<close>

theorem defect_count_is_length:
  assumes "format_flutter_response result = Inr resp"
    and "py_getitem resp ''status'' = Inr (PStr ''success'')"
  shows "\<exists>dd n. py_get result ''detected_defect_types'' (PList []) = Inr dd \<and>
                py_getitem resp ''detected_defects'' = Inr dd \<and>
                py_len dd = Inr n \<and>
                py_getitem resp ''defect_count'' = Inr (PInt n)"
  using format_success_body[OF assms]
  by (rule format_body_InrD) simp

theorem defect_count_is_length_witness:
  "(\<exists>resp. format_flutter_response (fst (process_single_image sample_env ''x.jpg'' None))
            = Inr resp \<and>
          py_getitem resp ''status'' = Inr (PStr ''success'') \<and>
          py_getitem resp ''detected_defects'' = Inr (PList [PStr ''open'', PStr ''scratch'']) \<and>
          py_getitem resp ''defect_count'' = Inr (PInt 2)) \<and>
   (\<exists>resp. format_flutter_response
             (fst (process_single_image sample_env ''unclassified.jpg'' None)) = Inr resp \<and>
          py_getitem resp ''status'' = Inr (PStr ''success'') \<and>
          py_getitem resp ''detected_defects'' = Inr (PList []) \<and>
          py_getitem resp ''defect_count'' = Inr (PInt 0))"
proof -
  let ?r = "fst (process_single_image sample_env ''x.jpg'' None)"
  let ?u = "fst (process_single_image sample_env ''unclassified.jpg'' None)"
  obtain resp where r: "format_flutter_response ?r = Inr resp"
    and rs: "py_getitem resp ''status'' = Inr (PStr ''success'')"
    by (simp add: sample_defect_format)
  have rd: "py_get ?r ''detected_defect_types'' (PList []) = Inr (PList [PStr ''open'', PStr ''scratch''])"
    by (simp add: sample_defect_run)
  obtain resp' where u: "format_flutter_response ?u = Inr resp'"
    and us: "py_getitem resp' ''status'' = Inr (PStr ''success'')"
    by (simp add: sample_unclassified_run format_flutter_response_def format_body_def
        add_classification_def sample_anomaly_def)
  have ud: "py_get ?u ''detected_defect_types'' (PList []) = Inr (PList [])"
    by (simp add: sample_unclassified_run)
  from defect_count_is_length[OF r rs] rd defect_count_is_length[OF u us] ud r rs u us
  show ?thesis by auto
qed

text \<open>
  C7. In every successful response the formatter carries the result's \<open>final_decision\<close>
  unchanged, the anomaly score rounded to 4 decimal places and the processing time
  rounded to 2 (for a float: a multiple of \<open>10^-4\<close>, respectively \<open>10^-2\<close>, at most half
  a unit of the last place away from the value), and in \<open>bounding_boxes\<close> the boxes of the
  per-type mapping in one sequence, each tagged with its defect type; reading the
  response back gives, for every box, the value the internal box has for \<open>x\<close>, \<open>y\<close>,
  \<open>width\<close>, \<open>height\<close>, \<open>center_x\<close>, \<open>center_y\<close> and \<open>area\<close>.
\<close>

theorem formatter_projection:
  assumes "format_flutter_response result = Inr resp"
    and "py_getitem resp ''status'' = Inr (PStr ''success'')"
  shows "py_getitem resp ''final_decision'' = py_getitem result ''final_decision'' \<and>
         (\<exists>sc. anomaly_field result ''anomaly_score'' = Inr sc \<and>
               anomaly_field resp ''anomaly_score'' = py_round sc 4 \<and>
               (\<forall>x. sc = PFloat x \<longrightarrow>
                  (\<exists>k::int. anomaly_field resp ''anomaly_score'' = Inr (PFloat (of_int k / 10 ^ 4)) \<and>
                            \<bar>of_int k / 10 ^ 4 - x\<bar> \<le> 1 / (2 * 10 ^ 4)))) \<and>
         (\<exists>pt. py_getitem result ''processing_time'' = Inr pt \<and>
               py_getitem resp ''processing_time'' = py_round pt 2 \<and>
               (\<forall>x. pt = PFloat x \<longrightarrow>
                  (\<exists>k::int. py_getitem resp ''processing_time'' = Inr (PFloat (of_int k / 10 ^ 2)) \<and>
                            \<bar>of_int k / 10 ^ 2 - x\<bar> \<le> 1 / (2 * 10 ^ 2)))) \<and>
         (\<exists>boxes. py_getitem resp ''bounding_boxes'' = Inr (PList boxes) \<and>
                  list_all2 projects boxes (source_boxes result))"
  using format_success_body[OF assms]
proof (rule format_body_InrD)
  fix fd pt pt2 ts ad sc sc4 dec thr ddt cnt dc boxes
  assume fd: "py_getitem result ''final_decision'' = Inr fd"
    and pt: "py_getitem result ''processing_time'' = Inr pt" "py_round pt 2 = Inr pt2"
    and ad: "py_getitem result ''anomaly_detection'' = Inr ad"
    and sc: "py_getitem ad ''anomaly_score'' = Inr sc" "py_round sc 4 = Inr sc4"
    and cl: "add_classification result = Inr (dc, boxes)"
    and resp: "resp = PDict [(''status'', PStr ''success''),
                   (''final_decision'', fd),
                   (''processing_time'', pt2),
                   (''timestamp'', ts),
                   (''anomaly_detection'',
                      PDict [(''anomaly_score'', sc4), (''decision'', dec),
                             (''threshold_used'', thr)]),
                   (''defect_classification'', dc),
                   (''detected_defects'', ddt),
                   (''defect_count'', PInt cnt),
                   (''bounding_boxes'', PList boxes)]"
  have 1: "py_getitem resp ''final_decision'' = py_getitem result ''final_decision''"
    by (simp add: resp fd)
  have 2: "anomaly_field result ''anomaly_score'' = Inr sc"
    by (simp add: anomaly_field_def ad sc)
  have 3: "anomaly_field resp ''anomaly_score'' = py_round sc 4"
    by (simp add: anomaly_field_def resp sc)
  have 4: "\<exists>k::int. anomaly_field resp ''anomaly_score'' = Inr (PFloat (of_int k / 10 ^ 4)) \<and>
                    \<bar>of_int k / 10 ^ 4 - x\<bar> \<le> 1 / (2 * 10 ^ 4)" if "sc = PFloat x" for x
    using py_round_float[of x 4] that unfolding 3 by simp
  have 5: "py_getitem resp ''processing_time'' = py_round pt 2"
    by (simp add: resp pt)
  have 6: "\<exists>k::int. py_getitem resp ''processing_time'' = Inr (PFloat (of_int k / 10 ^ 2)) \<and>
                    \<bar>of_int k / 10 ^ 2 - x\<bar> \<le> 1 / (2 * 10 ^ 2)" if "pt = PFloat x" for x
    using py_round_float[of x 2] that unfolding 5 by simp
  have 7: "py_getitem resp ''bounding_boxes'' = Inr (PList boxes)"
    by (simp add: resp)
  have 8: "list_all2 projects boxes (source_boxes result)"
    by (rule add_classification_boxes[OF cl])
  from 1 2 3 4 5 6 7 8 pt(1) show ?thesis by blast
qed

lemma sample_source_boxes:
  "source_boxes (fst (process_single_image sample_env ''x.jpg'' None)) =
     [(''open'', sample_bbox ''open'' 3 10 20 15 10),
      (''open'', sample_bbox ''open'' 3 40 50 20 10),
      (''scratch'', sample_bbox ''scratch'' 4 5 5 30 4)]"
  by (simp add: sample_defect_run source_boxes_def sample_classification_def tagged_boxes_def)

theorem formatter_projection_witness:
  "\<exists>resp b1 b2 b3.
     format_flutter_response (fst (process_single_image sample_env ''x.jpg'' None)) = Inr resp \<and>
     py_getitem resp ''status'' = Inr (PStr ''success'') \<and>
     py_getitem resp ''final_decision'' = Inr (PStr ''DEFECT'') \<and>
     anomaly_field (fst (process_single_image sample_env ''x.jpg'' None)) ''anomaly_score''
       = Inr (PFloat (87654321 / 100000000)) \<and>
     anomaly_field resp ''anomaly_score'' = Inr (PFloat (8765 / 10000)) \<and>
     py_getitem resp ''processing_time'' = Inr (PFloat (124 / 100)) \<and>
     py_getitem resp ''bounding_boxes'' = Inr (PList [b1, b2, b3]) \<and>
     projects b1 (''open'', sample_bbox ''open'' 3 10 20 15 10) \<and>
     projects b2 (''open'', sample_bbox ''open'' 3 40 50 20 10) \<and>
     projects b3 (''scratch'', sample_bbox ''scratch'' 4 5 5 30 4) \<and>
     py_getitem b3 ''area'' = Inr (PInt 120)"
proof -
  let ?r = "fst (process_single_image sample_env ''x.jpg'' None)"
  obtain resp where r: "format_flutter_response ?r = Inr resp"
    and rs: "py_getitem resp ''status'' = Inr (PStr ''success'')"
    by (simp add: sample_defect_format)
  have sc: "anomaly_field ?r ''anomaly_score'' = Inr (PFloat (87654321 / 100000000))"
    by (simp add: sample_defect_run anomaly_field_def sample_anomaly_def)
  have rv: "anomaly_field resp ''anomaly_score'' = Inr (PFloat (8765 / 10000))"
    "py_getitem resp ''processing_time'' = Inr (PFloat (124 / 100))"
    "py_getitem resp ''final_decision'' = Inr (PStr ''DEFECT'')"
    using r by (auto simp: sample_defect_format anomaly_field_def)
  from formatter_projection[OF r rs] obtain boxes where
    bb: "py_getitem resp ''bounding_boxes'' = Inr (PList boxes)"
    and pr: "list_all2 projects boxes (source_boxes ?r)" by blast
  from pr obtain b1 b2 b3 where boxes: "boxes = [b1, b2, b3]"
    and p: "projects b1 (''open'', sample_bbox ''open'' 3 10 20 15 10)"
      "projects b2 (''open'', sample_bbox ''open'' 3 40 50 20 10)"
      "projects b3 (''scratch'', sample_bbox ''scratch'' 4 5 5 30 4)"
    unfolding sample_source_boxes by (auto simp: list_all2_Cons2)
  from p(3) have "py_getitem b3 ''area'' = Inr (PInt 120)"
    by (simp add: projects_def bbox_fields_def sample_bbox_def)
  with r rs sc rv bb boxes p show ?thesis by blast
qed

subsection \<open>The pipeline\<close>

lemma map_of_dict_set:
  "map_of (dict_set d k v) k' = (if k' = k then Some v else map_of d k')"
  by (induction d k v rule: dict_set.induct) auto

lemma snd_finish_result:
  "snd (finish_result env p out result calls) =
     calls @ [CreateVisualization p, SaveAnalysisReport p]"
  by (simp add: finish_result_def Let_def split: sum.splits)

lemma fst_finish_result:
  "fst (finish_result env p out result calls) = PNone \<and>
     (\<exists>r d. isl (save_analysis_report env r d)) \<or>
   (\<exists>d. fst (finish_result env p out result calls) = PDict d \<and>
        (\<forall>k. k \<noteq> ''processing_time'' \<and> k \<noteq> ''visualization_path'' \<and> k \<noteq> ''report_path''
             \<longrightarrow> map_of d k = map_of result k))"
proof (cases "save_analysis_report env
                (PDict (dict_set (dict_set result ''processing_time''
                   (PFloat (fl (time_end env p - time_start env p)))) ''visualization_path''
                   (create_visualization env (PDict (dict_set result ''processing_time''
                   (PFloat (fl (time_end env p - time_start env p))))) out))) out")
  case (Inl e)
  then have "fst (finish_result env p out result calls) = PNone"
    by (simp add: finish_result_def Let_def)
  moreover from Inl have "\<exists>r d. isl (save_analysis_report env r d)"
    by (metis isl_def)
  ultimately show ?thesis by blast
next
  case (Inr report_path)
  then show ?thesis
    by (simp add: finish_result_def Let_def map_of_dict_set)
qed

lemma classify_calls_finish:
  "classify_calls (snd (finish_result env p out result calls)) = classify_calls calls"
  by (simp add: snd_finish_result classify_calls_def)

lemma getitem_dict: "py_getitem (PDict d) k = Inr v \<longleftrightarrow> map_of d k = Some v"
  by (simp split: option.splits)

lemma py_in_dict: "py_in k (PDict d) = Inr b \<longleftrightarrow> (b \<longleftrightarrow> map_of d k \<noteq> None)"
  by auto

text \<open>
  C1. When the anomaly stage decides GOOD, the run never invokes the classification
  stage; a result it returns has \<open>final_decision\<close> GOOD, \<open>defect_classification\<close> \<open>None\<close>
  and \<open>detected_defect_types\<close> the empty list; and it does return a result unless the
  report writer raises.
\<close>

theorem good_image_skips_classification:
  assumes "detect_anomaly env image_path = Inr anomaly_result"
    and "py_getitem anomaly_result ''decision'' = Inr (PStr ''GOOD'')"
  shows "classify_calls (snd (process_single_image env image_path output_dir)) = 0 \<and>
         (fst (process_single_image env image_path output_dir) = PNone \<or>
          py_getitem (fst (process_single_image env image_path output_dir)) ''final_decision''
            = Inr (PStr ''GOOD'') \<and>
          py_getitem (fst (process_single_image env image_path output_dir))
            ''defect_classification'' = Inr PNone \<and>
          py_getitem (fst (process_single_image env image_path output_dir))
            ''detected_defect_types'' = Inr (PList [])) \<and>
         ((\<forall>r d. \<not> isl (save_analysis_report env r d)) \<longrightarrow>
            fst (process_single_image env image_path output_dir) \<noteq> PNone)"
proof -
  define out where "out = (case output_dir of None \<Rightarrow> OUTPUTS_DIR | Some d \<Rightarrow> d)"
  define result where "result =
     dict_set [(''image_path'', PStr image_path),
               (''timestamp'', PStr (now_isoformat env image_path)),
               (''anomaly_detection'', anomaly_result),
               (''defect_classification'', PNone),
               (''processing_time'', PInt 0),
               (''final_decision'', PStr ''GOOD'')] ''detected_defect_types'' (PList [])"
  from assms(2) have truthy: "py_truthy anomaly_result"
    by (cases anomaly_result) (auto split: option.splits)
  have run: "process_single_image env image_path output_dir =
               finish_result env image_path out result [DetectAnomaly image_path]"
    using assms truthy by (simp add: process_single_image_def out_def result_def)
  have calls: "classify_calls (snd (process_single_image env image_path output_dir)) = 0"
    by (simp add: run classify_calls_finish) (simp add: classify_calls_def)
  have keys: "map_of result ''final_decision'' = Some (PStr ''GOOD'')"
    "map_of result ''defect_classification'' = Some PNone"
    "map_of result ''detected_defect_types'' = Some (PList [])"
    by (simp_all add: result_def)
  have shape: "fst (process_single_image env image_path output_dir) = PNone \<and>
                 (\<exists>r d. isl (save_analysis_report env r d)) \<or>
               py_getitem (fst (process_single_image env image_path output_dir))
                 ''final_decision'' = Inr (PStr ''GOOD'') \<and>
               py_getitem (fst (process_single_image env image_path output_dir))
                 ''defect_classification'' = Inr PNone \<and>
               py_getitem (fst (process_single_image env image_path output_dir))
                 ''detected_defect_types'' = Inr (PList []) \<and>
               fst (process_single_image env image_path output_dir) \<noteq> PNone"
    using fst_finish_result[of env image_path out result "[DetectAnomaly image_path]"]
  proof
    assume "fst (finish_result env image_path out result [DetectAnomaly image_path]) = PNone \<and>
            (\<exists>r d. isl (save_analysis_report env r d))"
    then show ?thesis by (simp add: run)
  next
    assume "\<exists>d. fst (finish_result env image_path out result [DetectAnomaly image_path]) = PDict d \<and>
        (\<forall>k. k \<noteq> ''processing_time'' \<and> k \<noteq> ''visualization_path'' \<and> k \<noteq> ''report_path''
             \<longrightarrow> map_of d k = map_of result k)"
    then obtain d where d: "fst (process_single_image env image_path output_dir) = PDict d"
      and same: "\<And>k. k \<noteq> ''processing_time'' \<Longrightarrow> k \<noteq> ''visualization_path'' \<Longrightarrow>
                     k \<noteq> ''report_path'' \<Longrightarrow> map_of d k = map_of result k"
      unfolding run by blast
    have "map_of d ''final_decision'' = Some (PStr ''GOOD'')"
      "map_of d ''defect_classification'' = Some PNone"
      "map_of d ''detected_defect_types'' = Some (PList [])"
      using keys by (simp_all add: same)
    then show ?thesis by (simp add: d)
  qed
  from calls shape show ?thesis by blast
qed

theorem good_image_skips_classification_witness:
  "detect_anomaly sample_env ''good.jpg'' = Inr (sample_anomaly (1 / 10) ''GOOD'') \<and>
   classify_calls (snd (process_single_image sample_env ''good.jpg'' None)) = 0 \<and>
   py_getitem (fst (process_single_image sample_env ''good.jpg'' None)) ''final_decision''
     = Inr (PStr ''GOOD'') \<and>
   py_getitem (fst (process_single_image sample_env ''good.jpg'' None))
     ''defect_classification'' = Inr PNone \<and>
   py_getitem (fst (process_single_image sample_env ''good.jpg'' None))
     ''detected_defect_types'' = Inr (PList [])"
proof -
  have a: "detect_anomaly sample_env ''good.jpg'' = Inr (sample_anomaly (1 / 10) ''GOOD'')"
    by (simp add: sample_env_def)
  have b: "py_getitem (sample_anomaly (1 / 10) ''GOOD'') ''decision'' = Inr (PStr ''GOOD'')"
    by (simp add: sample_anomaly_def)
  have c: "\<forall>r d. \<not> isl (save_analysis_report sample_env r d)"
    by (simp add: sample_env_def)
  from good_image_skips_classification[OF a b, of None] a c show ?thesis by blast
qed

lemma finish_result_lookup:
  assumes "fst (finish_result env p out result calls) \<noteq> PNone"
    and "k \<noteq> ''processing_time''" "k \<noteq> ''visualization_path''" "k \<noteq> ''report_path''"
  shows "py_getitem (fst (finish_result env p out result calls)) k = py_getitem (PDict result) k"
    and "py_in k (fst (finish_result env p out result calls)) = py_in k (PDict result)"
  using assms
  by (simp_all add: finish_result_def Let_def map_of_dict_set split: sum.splits)

lemma finish_result_has_time:
  assumes "fst (finish_result env p out result calls) \<noteq> PNone"
  shows "py_in ''processing_time'' (fst (finish_result env p out result calls)) = Inr True"
  using assms by (simp add: finish_result_def Let_def map_of_dict_set split: sum.splits)

lemma getitem_truthy: "py_getitem x k = Inr v \<Longrightarrow> py_truthy x"
  by (cases x) (auto split: option.splits)

text \<open>The paths through \<open>process_single_image\<close>.\<close>

lemma run_anomaly_raises:
  "detect_anomaly env p = Inl e \<Longrightarrow>
     process_single_image env p out = (PNone, [DetectAnomaly p])"
  by (simp add: process_single_image_def)

lemma run_anomaly_empty:
  "detect_anomaly env p = Inr ar \<Longrightarrow> \<not> py_truthy ar \<Longrightarrow>
     process_single_image env p out = (PNone, [DetectAnomaly p])"
  by (simp add: process_single_image_def)

lemma run_no_decision:
  "detect_anomaly env p = Inr ar \<Longrightarrow> py_getitem ar ''decision'' = Inl e \<Longrightarrow>
     process_single_image env p out = (PNone, [DetectAnomaly p])"
  by (simp add: process_single_image_def Let_def)

lemma run_not_defect:
  assumes "detect_anomaly env p = Inr ar" "py_getitem ar ''decision'' = Inr decision"
    and "decision \<noteq> PStr ''DEFECT''"
  shows "process_single_image env p out =
           finish_result env p (case out of None \<Rightarrow> OUTPUTS_DIR | Some d \<Rightarrow> d)
             [(''image_path'', PStr p), (''timestamp'', PStr (now_isoformat env p)),
              (''anomaly_detection'', ar), (''defect_classification'', PNone),
              (''processing_time'', PInt 0), (''final_decision'', decision),
              (''detected_defect_types'', PList [])]
             [DetectAnomaly p]"
  using assms getitem_truthy[OF assms(2)] by (simp add: process_single_image_def Let_def)

lemma run_no_mask:
  assumes "detect_anomaly env p = Inr ar"
    and "py_getitem ar ''decision'' = Inr (PStr ''DEFECT'')"
    and "py_getitem ar ''anomaly_mask'' = Inl e"
  shows "process_single_image env p out = (PNone, [DetectAnomaly p])"
  using assms getitem_truthy[OF assms(2)] by (simp add: process_single_image_def Let_def)

lemma run_classify_raises:
  assumes "detect_anomaly env p = Inr ar"
    and "py_getitem ar ''decision'' = Inr (PStr ''DEFECT'')"
    and "py_getitem ar ''anomaly_mask'' = Inr m" "classify_defects env p m = Inl e"
  shows "process_single_image env p out = (PNone, [DetectAnomaly p, ClassifyDefects p m])"
  using assms getitem_truthy[OF assms(2)] by (simp add: process_single_image_def Let_def)

lemma run_classify_empty:
  assumes "detect_anomaly env p = Inr ar"
    and "py_getitem ar ''decision'' = Inr (PStr ''DEFECT'')"
    and "py_getitem ar ''anomaly_mask'' = Inr m" "classify_defects env p m = Inr dr"
    and "\<not> py_truthy dr"
  shows "process_single_image env p out =
           finish_result env p (case out of None \<Rightarrow> OUTPUTS_DIR | Some d \<Rightarrow> d)
             [(''image_path'', PStr p), (''timestamp'', PStr (now_isoformat env p)),
              (''anomaly_detection'', ar), (''defect_classification'', PNone),
              (''processing_time'', PInt 0), (''final_decision'', PStr ''DEFECT'')]
             [DetectAnomaly p, ClassifyDefects p m]"
  using assms getitem_truthy[OF assms(2)] by (simp add: process_single_image_def Let_def)

lemma run_no_defect_names:
  assumes "detect_anomaly env p = Inr ar"
    and "py_getitem ar ''decision'' = Inr (PStr ''DEFECT'')"
    and "py_getitem ar ''anomaly_mask'' = Inr m" "classify_defects env p m = Inr dr"
    and "py_truthy dr" "py_getitem dr ''detected_defects'' = Inl e"
  shows "process_single_image env p out = (PNone, [DetectAnomaly p, ClassifyDefects p m])"
  using assms getitem_truthy[OF assms(2)] by (simp add: process_single_image_def Let_def)

lemma run_classified:
  assumes "detect_anomaly env p = Inr ar"
    and "py_getitem ar ''decision'' = Inr (PStr ''DEFECT'')"
    and "py_getitem ar ''anomaly_mask'' = Inr m" "classify_defects env p m = Inr dr"
    and "py_truthy dr" "py_getitem dr ''detected_defects'' = Inr dd"
  shows "process_single_image env p out =
           finish_result env p (case out of None \<Rightarrow> OUTPUTS_DIR | Some d \<Rightarrow> d)
             [(''image_path'', PStr p), (''timestamp'', PStr (now_isoformat env p)),
              (''anomaly_detection'', ar), (''defect_classification'', dr),
              (''processing_time'', PInt 0), (''final_decision'', PStr ''DEFECT''),
              (''detected_defect_types'', dd)]
             [DetectAnomaly p, ClassifyDefects p m]"
  using assms getitem_truthy[OF assms(2)] by (simp add: process_single_image_def Let_def)

lemma run_shape:
  "(fst (process_single_image env p out) = PNone \<or>
    (\<exists>ar decision.
       detect_anomaly env p = Inr ar \<and> py_getitem ar ''decision'' = Inr decision \<and>
       py_getitem (fst (process_single_image env p out)) ''image_path'' = Inr (PStr p) \<and>
       py_in ''timestamp'' (fst (process_single_image env p out)) = Inr True \<and>
       py_getitem (fst (process_single_image env p out)) ''anomaly_detection'' = Inr ar \<and>
       py_in ''processing_time'' (fst (process_single_image env p out)) = Inr True \<and>
       py_getitem (fst (process_single_image env p out)) ''final_decision'' = Inr decision \<and>
       (if decision = PStr ''DEFECT'' then
          (\<exists>m dr. py_getitem ar ''anomaly_mask'' = Inr m \<and>
                  classify_defects env p m = Inr dr \<and>
                  (if py_truthy dr then
                     py_getitem (fst (process_single_image env p out))
                       ''defect_classification'' = Inr dr \<and>
                     py_in ''detected_defect_types'' (fst (process_single_image env p out))
                       = Inr True \<and>
                     py_getitem (fst (process_single_image env p out))
                       ''detected_defect_types'' = py_getitem dr ''detected_defects''
                   else
                     py_getitem (fst (process_single_image env p out))
                       ''defect_classification'' = Inr PNone \<and>
                     py_in ''detected_defect_types'' (fst (process_single_image env p out))
                       = Inr False))
        else
          py_getitem (fst (process_single_image env p out)) ''defect_classification''
            = Inr PNone \<and>
          py_getitem (fst (process_single_image env p out)) ''detected_defect_types''
            = Inr (PList []))))"
  (is "?N \<or> ?R")
proof -
  let ?run = "fst (process_single_image env p out)"
  let ?dir = "case out of None \<Rightarrow> OUTPUTS_DIR | Some d \<Rightarrow> d"
  show ?thesis
  proof (cases "detect_anomaly env p")
    case (Inl e)
    then show ?thesis by (simp add: run_anomaly_raises)
  next
    case ar: (Inr ar)
    show ?thesis
    proof (cases "py_getitem ar ''decision''")
      case (Inl e)
      with ar show ?thesis by (simp add: run_no_decision)
    next
      case dec: (Inr decision)
      show ?thesis
      proof (cases "decision = PStr ''DEFECT''")
        case False
        note eq = run_not_defect[OF ar dec False, of out]
        show ?thesis
        proof (cases "?run = PNone")
          case True
          then show ?thesis by simp
        next
          case run: False
          then have ne: "fst (finish_result env p ?dir
             [(''image_path'', PStr p), (''timestamp'', PStr (now_isoformat env p)),
              (''anomaly_detection'', ar), (''defect_classification'', PNone),
              (''processing_time'', PInt 0), (''final_decision'', decision),
              (''detected_defect_types'', PList [])]
             [DetectAnomaly p]) \<noteq> PNone"
            by (simp add: eq)
          have "py_getitem ?run ''image_path'' = Inr (PStr p)"
            "py_in ''timestamp'' ?run = Inr True"
            "py_getitem ?run ''anomaly_detection'' = Inr ar"
            "py_in ''processing_time'' ?run = Inr True"
            "py_getitem ?run ''final_decision'' = Inr decision"
            "py_getitem ?run ''defect_classification'' = Inr PNone"
            "py_getitem ?run ''detected_defect_types'' = Inr (PList [])"
            unfolding eq
            by (simp_all add: finish_result_lookup[OF ne] finish_result_has_time[OF ne])
          with ar dec False show ?thesis by simp
        qed
      next
        case True
        with dec have dec': "py_getitem ar ''decision'' = Inr (PStr ''DEFECT'')" by simp
        show ?thesis
        proof (cases "py_getitem ar ''anomaly_mask''")
          case (Inl e)
          from run_no_mask[OF ar dec' Inl] show ?thesis by simp
        next
          case m: (Inr m)
          show ?thesis
          proof (cases "classify_defects env p m")
            case (Inl e)
            from run_classify_raises[OF ar dec' m Inl] show ?thesis by simp
          next
            case dr: (Inr dr)
            show ?thesis
            proof (cases "py_truthy dr")
              case False
              note eq = run_classify_empty[OF ar dec' m dr False, of out]
              show ?thesis
              proof (cases "?run = PNone")
                case True
                then show ?thesis by simp
              next
                case run: False
                then have ne: "fst (finish_result env p ?dir
                   [(''image_path'', PStr p), (''timestamp'', PStr (now_isoformat env p)),
                    (''anomaly_detection'', ar), (''defect_classification'', PNone),
                    (''processing_time'', PInt 0), (''final_decision'', PStr ''DEFECT'')]
                   [DetectAnomaly p, ClassifyDefects p m]) \<noteq> PNone"
                  by (simp add: eq)
                have "py_getitem ?run ''image_path'' = Inr (PStr p)"
                  "py_in ''timestamp'' ?run = Inr True"
                  "py_getitem ?run ''anomaly_detection'' = Inr ar"
                  "py_in ''processing_time'' ?run = Inr True"
                  "py_getitem ?run ''final_decision'' = Inr decision"
                  "py_getitem ?run ''defect_classification'' = Inr PNone"
                  "py_in ''detected_defect_types'' ?run = Inr False"
                  unfolding eq
                  by (simp_all add: finish_result_lookup[OF ne] finish_result_has_time[OF ne]
                        True)
                with ar dec True m dr False show ?thesis by simp
              qed
            next
              case truthy: True
              show ?thesis
              proof (cases "py_getitem dr ''detected_defects''")
                case (Inl e)
                from run_no_defect_names[OF ar dec' m dr truthy Inl] show ?thesis by simp
              next
                case dd: (Inr dd)
                note eq = run_classified[OF ar dec' m dr truthy dd, of out]
                show ?thesis
                proof (cases "?run = PNone")
                  case True
                  then show ?thesis by simp
                next
                  case run: False
                  then have ne: "fst (finish_result env p ?dir
                     [(''image_path'', PStr p), (''timestamp'', PStr (now_isoformat env p)),
                      (''anomaly_detection'', ar), (''defect_classification'', dr),
                      (''processing_time'', PInt 0), (''final_decision'', PStr ''DEFECT''),
                      (''detected_defect_types'', dd)]
                     [DetectAnomaly p, ClassifyDefects p m]) \<noteq> PNone"
                    by (simp add: eq)
                  have "py_getitem ?run ''image_path'' = Inr (PStr p)"
                    "py_in ''timestamp'' ?run = Inr True"
                    "py_getitem ?run ''anomaly_detection'' = Inr ar"
                    "py_in ''processing_time'' ?run = Inr True"
                    "py_getitem ?run ''final_decision'' = Inr decision"
                    "py_getitem ?run ''defect_classification'' = Inr dr"
                    "py_in ''detected_defect_types'' ?run = Inr True"
                    "py_getitem ?run ''detected_defect_types'' = Inr dd"
                    unfolding eq
                    by (simp_all add: finish_result_lookup[OF ne] finish_result_has_time[OF ne]
                          True)
                  with ar dec True m dr truthy dd show ?thesis by simp
                qed
              qed
            qed
          qed
        qed
      qed
    qed
  qed
qed

lemma finish_result_returns:
  assumes "\<forall>r d. \<not> isl (save_analysis_report env r d)"
  shows "fst (finish_result env p out result calls) \<noteq> PNone"
proof -
  let ?r2 = "dict_set (dict_set result ''processing_time''
                 (PFloat (fl (time_end env p - time_start env p)))) ''visualization_path''
               (create_visualization env (PDict (dict_set result ''processing_time''
                 (PFloat (fl (time_end env p - time_start env p))))) out)"
  from assms have "\<not> isl (save_analysis_report env (PDict ?r2) out)" by blast
  then obtain report_path where "save_analysis_report env (PDict ?r2) out = Inr report_path"
    by (cases "save_analysis_report env (PDict ?r2) out") auto
  then show ?thesis by (simp add: finish_result_def Let_def)
qed

lemma finish_result_aborts:
  assumes "\<forall>r d. isl (save_analysis_report env r d)"
  shows "fst (finish_result env p out result calls) = PNone"
proof -
  let ?r2 = "dict_set (dict_set result ''processing_time''
                 (PFloat (fl (time_end env p - time_start env p)))) ''visualization_path''
               (create_visualization env (PDict (dict_set result ''processing_time''
                 (PFloat (fl (time_end env p - time_start env p))))) out)"
  from assms have "isl (save_analysis_report env (PDict ?r2) out)" by blast
  then obtain e where "save_analysis_report env (PDict ?r2) out = Inl e"
    by (cases "save_analysis_report env (PDict ?r2) out") auto
  then show ?thesis by (simp add: finish_result_def Let_def)
qed

lemma run_report_fails:
  assumes "\<forall>r d. isl (save_analysis_report env r d)"
  shows "fst (process_single_image env p out) = PNone"
proof (rule ccontr)
  assume ne: "fst (process_single_image env p out) \<noteq> PNone"
  then have "\<exists>dir result calls.
               process_single_image env p out = finish_result env p dir result calls"
    by (auto simp: process_single_image_def Let_def split: sum.splits if_splits)
  then obtain dir result calls
    where "process_single_image env p out = finish_result env p dir result calls" by blast
  with finish_result_aborts[OF assms, of p dir result calls] ne show False by simp
qed

lemma run_unclassified_returns:
  assumes "detect_anomaly env p = Inr ar"
    and "py_getitem ar ''decision'' = Inr (PStr ''DEFECT'')"
    and "py_getitem ar ''anomaly_mask'' = Inr m" "classify_defects env p m = Inr dr"
    and "\<not> py_truthy dr"
    and "\<forall>r d. \<not> isl (save_analysis_report env r d)"
  shows "fst (process_single_image env p out) \<noteq> PNone"
    and "py_getitem (fst (process_single_image env p out)) ''final_decision''
           = Inr (PStr ''DEFECT'')"
    and "py_getitem (fst (process_single_image env p out)) ''defect_classification''
           = Inr PNone"
    and "py_in ''detected_defect_types'' (fst (process_single_image env p out)) = Inr False"
proof -
  let ?dir = "case out of None \<Rightarrow> OUTPUTS_DIR | Some d \<Rightarrow> d"
  note eq = run_classify_empty[OF assms(1-5), of out]
  have ne: "fst (finish_result env p ?dir
                   [(''image_path'', PStr p), (''timestamp'', PStr (now_isoformat env p)),
                    (''anomaly_detection'', ar), (''defect_classification'', PNone),
                    (''processing_time'', PInt 0), (''final_decision'', PStr ''DEFECT'')]
                   [DetectAnomaly p, ClassifyDefects p m]) \<noteq> PNone"
    by (rule finish_result_returns[OF assms(6)])
  show "fst (process_single_image env p out) \<noteq> PNone"
    unfolding eq by (rule ne)
  show "py_getitem (fst (process_single_image env p out)) ''final_decision''
           = Inr (PStr ''DEFECT'')"
    unfolding eq by (simp add: finish_result_lookup[OF ne])
  show "py_getitem (fst (process_single_image env p out)) ''defect_classification''
           = Inr PNone"
    unfolding eq by (simp add: finish_result_lookup[OF ne])
  show "py_in ''detected_defect_types'' (fst (process_single_image env p out)) = Inr False"
    unfolding eq by (simp add: finish_result_lookup[OF ne])
qed

lemma run_classified_returns:
  assumes "detect_anomaly env p = Inr ar"
    and "py_getitem ar ''decision'' = Inr (PStr ''DEFECT'')"
    and "py_getitem ar ''anomaly_mask'' = Inr m" "classify_defects env p m = Inr dr"
    and "py_truthy dr" "py_getitem dr ''detected_defects'' = Inr dd"
    and "\<forall>r d. \<not> isl (save_analysis_report env r d)"
  shows "fst (process_single_image env p out) \<noteq> PNone"
    and "py_getitem (fst (process_single_image env p out)) ''final_decision''
           = Inr (PStr ''DEFECT'')"
    and "py_getitem (fst (process_single_image env p out)) ''defect_classification''
           = Inr dr"
    and "py_getitem (fst (process_single_image env p out)) ''detected_defect_types''
           = Inr dd"
proof -
  let ?dir = "case out of None \<Rightarrow> OUTPUTS_DIR | Some d \<Rightarrow> d"
  note eq = run_classified[OF assms(1-6), of out]
  have ne: "fst (finish_result env p ?dir
                   [(''image_path'', PStr p), (''timestamp'', PStr (now_isoformat env p)),
                    (''anomaly_detection'', ar), (''defect_classification'', dr),
                    (''processing_time'', PInt 0), (''final_decision'', PStr ''DEFECT''),
                    (''detected_defect_types'', dd)]
                   [DetectAnomaly p, ClassifyDefects p m]) \<noteq> PNone"
    by (rule finish_result_returns[OF assms(7)])
  show "fst (process_single_image env p out) \<noteq> PNone"
    unfolding eq by (rule ne)
  show "py_getitem (fst (process_single_image env p out)) ''final_decision''
           = Inr (PStr ''DEFECT'')"
    unfolding eq by (simp add: finish_result_lookup[OF ne])
  show "py_getitem (fst (process_single_image env p out)) ''defect_classification''
           = Inr dr"
    unfolding eq by (simp add: finish_result_lookup[OF ne])
  show "py_getitem (fst (process_single_image env p out)) ''detected_defect_types''
           = Inr dd"
    unfolding eq by (simp add: finish_result_lookup[OF ne])
qed

text \<open>
  C4, as the code has it. The run of an image ends with \<open>None\<close> instead of a result when
  the anomaly stage raises or returns \<open>None\<close> or an empty value, when the classification
  stage raises, when it returns a classification without \<open>detected_defects\<close>, and when
  the report writer raises. When none of that happens and the anomaly stage decided
  DEFECT, a result is returned with \<open>final_decision\<close> DEFECT: with the classification
  and its \<open>detected_defects\<close> when the classification stage returned one, and, when that
  stage returned \<open>None\<close> or an empty value, with \<open>defect_classification\<close> \<open>None\<close> and no
  \<open>detected_defect_types\<close> key. Every result that is returned carries \<open>image_path\<close>,
  \<open>timestamp\<close>, \<open>anomaly_detection\<close>, \<open>processing_time\<close> and, as \<open>final_decision\<close>, the
  decision of the anomaly stage.
\<close>

theorem pipeline_outcome:
  "(\<forall>e. detect_anomaly env p = Inl e \<longrightarrow> fst (process_single_image env p out) = PNone) \<and>
   (\<forall>ar. detect_anomaly env p = Inr ar \<and> \<not> py_truthy ar \<longrightarrow>
         fst (process_single_image env p out) = PNone) \<and>
   (\<forall>ar m e. detect_anomaly env p = Inr ar \<and>
             py_getitem ar ''decision'' = Inr (PStr ''DEFECT'') \<and>
             py_getitem ar ''anomaly_mask'' = Inr m \<and> classify_defects env p m = Inl e \<longrightarrow>
         fst (process_single_image env p out) = PNone) \<and>
   (\<forall>ar m dr e. detect_anomaly env p = Inr ar \<and>
             py_getitem ar ''decision'' = Inr (PStr ''DEFECT'') \<and>
             py_getitem ar ''anomaly_mask'' = Inr m \<and> classify_defects env p m = Inr dr \<and>
             py_truthy dr \<and> py_getitem dr ''detected_defects'' = Inl e \<longrightarrow>
         fst (process_single_image env p out) = PNone) \<and>
   ((\<forall>r d. isl (save_analysis_report env r d)) \<longrightarrow>
         fst (process_single_image env p out) = PNone) \<and>
   (\<forall>ar m dr. detect_anomaly env p = Inr ar \<and>
             py_getitem ar ''decision'' = Inr (PStr ''DEFECT'') \<and>
             py_getitem ar ''anomaly_mask'' = Inr m \<and> classify_defects env p m = Inr dr \<and>
             \<not> py_truthy dr \<and> (\<forall>r d. \<not> isl (save_analysis_report env r d)) \<longrightarrow>
         fst (process_single_image env p out) \<noteq> PNone \<and>
         py_getitem (fst (process_single_image env p out)) ''final_decision''
           = Inr (PStr ''DEFECT'') \<and>
         py_getitem (fst (process_single_image env p out)) ''defect_classification''
           = Inr PNone \<and>
         py_in ''detected_defect_types'' (fst (process_single_image env p out)) = Inr False) \<and>
   (\<forall>ar m dr dd. detect_anomaly env p = Inr ar \<and>
             py_getitem ar ''decision'' = Inr (PStr ''DEFECT'') \<and>
             py_getitem ar ''anomaly_mask'' = Inr m \<and> classify_defects env p m = Inr dr \<and>
             py_truthy dr \<and> py_getitem dr ''detected_defects'' = Inr dd \<and>
             (\<forall>r d. \<not> isl (save_analysis_report env r d)) \<longrightarrow>
         fst (process_single_image env p out) \<noteq> PNone \<and>
         py_getitem (fst (process_single_image env p out)) ''final_decision''
           = Inr (PStr ''DEFECT'') \<and>
         py_getitem (fst (process_single_image env p out)) ''defect_classification''
           = Inr dr \<and>
         py_getitem (fst (process_single_image env p out)) ''detected_defect_types''
           = Inr dd) \<and>
   (fst (process_single_image env p out) = PNone \<or>
    (\<exists>ar decision.
       detect_anomaly env p = Inr ar \<and> py_getitem ar ''decision'' = Inr decision \<and>
       py_getitem (fst (process_single_image env p out)) ''image_path'' = Inr (PStr p) \<and>
       py_in ''timestamp'' (fst (process_single_image env p out)) = Inr True \<and>
       py_getitem (fst (process_single_image env p out)) ''anomaly_detection'' = Inr ar \<and>
       py_in ''processing_time'' (fst (process_single_image env p out)) = Inr True \<and>
       py_getitem (fst (process_single_image env p out)) ''final_decision'' = Inr decision \<and>
       (if decision = PStr ''DEFECT'' then
          (\<exists>m dr. py_getitem ar ''anomaly_mask'' = Inr m \<and>
                  classify_defects env p m = Inr dr \<and>
                  (if py_truthy dr then
                     py_getitem (fst (process_single_image env p out))
                       ''defect_classification'' = Inr dr \<and>
                     py_in ''detected_defect_types'' (fst (process_single_image env p out))
                       = Inr True \<and>
                     py_getitem (fst (process_single_image env p out))
                       ''detected_defect_types'' = py_getitem dr ''detected_defects''
                   else
                     py_getitem (fst (process_single_image env p out))
                       ''defect_classification'' = Inr PNone \<and>
                     py_in ''detected_defect_types'' (fst (process_single_image env p out))
                       = Inr False))
        else
          py_getitem (fst (process_single_image env p out)) ''defect_classification''
            = Inr PNone \<and>
          py_getitem (fst (process_single_image env p out)) ''detected_defect_types''
            = Inr (PList []))))"
  (is "?A \<and> ?B \<and> ?C \<and> ?D \<and> ?E \<and> ?F \<and> ?G \<and> (?N \<or> ?R)")
proof -
  have A: ?A by (simp add: run_anomaly_raises)
  have B: ?B by (simp add: run_anomaly_empty)
  have C: ?C by (auto simp: run_classify_raises)
  have D: ?D by (auto simp: run_no_defect_names)
  have E: ?E by (auto simp: run_report_fails)
  have F: ?F
  proof (intro allI impI)
    fix ar m dr
    assume h: "detect_anomaly env p = Inr ar \<and>
             py_getitem ar ''decision'' = Inr (PStr ''DEFECT'') \<and>
             py_getitem ar ''anomaly_mask'' = Inr m \<and> classify_defects env p m = Inr dr \<and>
             \<not> py_truthy dr \<and> (\<forall>r d. \<not> isl (save_analysis_report env r d))"
    then have h1: "detect_anomaly env p = Inr ar"
      and h2: "py_getitem ar ''decision'' = Inr (PStr ''DEFECT'')"
      and h3: "py_getitem ar ''anomaly_mask'' = Inr m"
      and h4: "classify_defects env p m = Inr dr"
      and h5: "\<not> py_truthy dr"
      and h6: "\<forall>r d. \<not> isl (save_analysis_report env r d)"
      by blast+
    from run_unclassified_returns[OF h1 h2 h3 h4 h5 h6, of out]
    show "fst (process_single_image env p out) \<noteq> PNone \<and>
         py_getitem (fst (process_single_image env p out)) ''final_decision''
           = Inr (PStr ''DEFECT'') \<and>
         py_getitem (fst (process_single_image env p out)) ''defect_classification''
           = Inr PNone \<and>
         py_in ''detected_defect_types'' (fst (process_single_image env p out)) = Inr False"
      by (intro conjI)
  qed
  have G: ?G
  proof (intro allI impI)
    fix ar m dr dd
    assume h: "detect_anomaly env p = Inr ar \<and>
             py_getitem ar ''decision'' = Inr (PStr ''DEFECT'') \<and>
             py_getitem ar ''anomaly_mask'' = Inr m \<and> classify_defects env p m = Inr dr \<and>
             py_truthy dr \<and> py_getitem dr ''detected_defects'' = Inr dd \<and>
             (\<forall>r d. \<not> isl (save_analysis_report env r d))"
    then have h1: "detect_anomaly env p = Inr ar"
      and h2: "py_getitem ar ''decision'' = Inr (PStr ''DEFECT'')"
      and h3: "py_getitem ar ''anomaly_mask'' = Inr m"
      and h4: "classify_defects env p m = Inr dr"
      and h5: "py_truthy dr"
      and h6: "py_getitem dr ''detected_defects'' = Inr dd"
      and h7: "\<forall>r d. \<not> isl (save_analysis_report env r d)"
      by blast+
    from run_classified_returns[OF h1 h2 h3 h4 h5 h6 h7, of out]
    show "fst (process_single_image env p out) \<noteq> PNone \<and>
         py_getitem (fst (process_single_image env p out)) ''final_decision''
           = Inr (PStr ''DEFECT'') \<and>
         py_getitem (fst (process_single_image env p out)) ''defect_classification''
           = Inr dr \<and>
         py_getitem (fst (process_single_image env p out)) ''detected_defect_types''
           = Inr dd"
      by (intro conjI)
  qed
  have H: "?N \<or> ?R" by (rule run_shape)
  from A B C D E F G H show ?thesis by (intro conjI)
qed

text \<open>
  C4 as stated fails: in the sample environment the anomaly stage decides DEFECT for
  \<open>unclassified.jpg\<close> and the classification stage returns \<open>None\<close>; the pipeline returns
  a result with \<open>final_decision\<close> DEFECT, no classification and no
  \<open>detected_defect_types\<close>.
\<close>

theorem pipeline_returns_unclassified_defect:
  "classify_defects sample_env ''unclassified.jpg'' PNone = Inr PNone \<and>
   fst (process_single_image sample_env ''unclassified.jpg'' None) \<noteq> PNone \<and>
   py_getitem (fst (process_single_image sample_env ''unclassified.jpg'' None))
     ''final_decision'' = Inr (PStr ''DEFECT'') \<and>
   py_getitem (fst (process_single_image sample_env ''unclassified.jpg'' None))
     ''defect_classification'' = Inr PNone \<and>
   py_in ''detected_defect_types''
     (fst (process_single_image sample_env ''unclassified.jpg'' None)) = Inr False"
  by (simp add: sample_unclassified_run) (simp add: sample_env_def)

theorem pipeline_outcome_witness:
  "detect_anomaly sample_env ''broken.jpg'' = Inl (External ''inference failed'') \<and>
   fst (process_single_image sample_env ''broken.jpg'' None) = PNone \<and>
   detect_anomaly sample_env ''u.jpg'' = Inr (sample_anomaly (87654321 / 100000000) ''DEFECT'') \<and>
   classify_defects sample_env ''u.jpg'' PNone = Inr sample_classification \<and>
   fst (process_single_image sample_env ''u.jpg'' None) \<noteq> PNone \<and>
   py_getitem (fst (process_single_image sample_env ''u.jpg'' None)) ''final_decision''
     = Inr (PStr ''DEFECT'') \<and>
   py_getitem (fst (process_single_image sample_env ''u.jpg'' None)) ''defect_classification''
     = Inr sample_classification \<and>
   py_getitem (fst (process_single_image sample_env ''u.jpg'' None)) ''detected_defect_types''
     = Inr (PList [PStr ''open'', PStr ''scratch'']) \<and>
   classify_defects
     (sample_env\<lparr>classify_defects := \<lambda>p m. Inr (PDict [])\<rparr>) ''u.jpg'' PNone = Inr (PDict []) \<and>
   fst (process_single_image
          (sample_env\<lparr>classify_defects := \<lambda>p m. Inr (PDict [])\<rparr>) ''u.jpg'' None) \<noteq> PNone \<and>
   py_getitem
     (fst (process_single_image
             (sample_env\<lparr>classify_defects := \<lambda>p m. Inr (PDict [])\<rparr>) ''u.jpg'' None))
     ''defect_classification'' = Inr PNone \<and>
   py_in ''detected_defect_types''
     (fst (process_single_image
             (sample_env\<lparr>classify_defects := \<lambda>p m. Inr (PDict [])\<rparr>) ''u.jpg'' None))
     = Inr False \<and>
   fst (process_single_image
          (sample_env\<lparr>save_analysis_report := \<lambda>r d. Inl (External ''disk full'')\<rparr>)
          ''u.jpg'' None) = PNone"
proof -
  let ?empty = "sample_env\<lparr>classify_defects := \<lambda>p m. Inr (PDict [])\<rparr>"
  let ?full = "sample_env\<lparr>save_analysis_report := \<lambda>r d. Inl (External ''disk full'')\<rparr>"
  let ?ar = "sample_anomaly (87654321 / 100000000) ''DEFECT''"
  have a: "detect_anomaly sample_env ''broken.jpg'' = Inl (External ''inference failed'')"
    by (simp add: sample_env_def)
  have c: "detect_anomaly sample_env ''u.jpg'' = Inr ?ar"
    "py_getitem ?ar ''decision'' = Inr (PStr ''DEFECT'')"
    "py_getitem ?ar ''anomaly_mask'' = Inr PNone"
    "classify_defects sample_env ''u.jpg'' PNone = Inr sample_classification"
    "py_truthy sample_classification"
    "py_getitem sample_classification ''detected_defects''
       = Inr (PList [PStr ''open'', PStr ''scratch''])"
    "\<forall>r d. \<not> isl (save_analysis_report sample_env r d)"
    by (simp_all add: sample_env_def sample_anomaly_def sample_classification_def)
  have d: "detect_anomaly ?empty ''u.jpg'' = Inr ?ar"
    "classify_defects ?empty ''u.jpg'' PNone = Inr (PDict [])"
    "\<not> py_truthy (PDict [])"
    "\<forall>r d. \<not> isl (save_analysis_report ?empty r d)"
    by (simp_all add: sample_env_def)
  have f: "\<forall>r d. isl (save_analysis_report ?full r d)" by simp
  from pipeline_outcome[of sample_env "''broken.jpg''" None] a
  have 1: "fst (process_single_image sample_env ''broken.jpg'' None) = PNone" by blast
  from pipeline_outcome[of sample_env "''u.jpg''" None] c
  have 2: "fst (process_single_image sample_env ''u.jpg'' None) \<noteq> PNone \<and>
           py_getitem (fst (process_single_image sample_env ''u.jpg'' None)) ''final_decision''
             = Inr (PStr ''DEFECT'') \<and>
           py_getitem (fst (process_single_image sample_env ''u.jpg'' None))
             ''defect_classification'' = Inr sample_classification \<and>
           py_getitem (fst (process_single_image sample_env ''u.jpg'' None))
             ''detected_defect_types'' = Inr (PList [PStr ''open'', PStr ''scratch''])"
    by blast
  from pipeline_outcome[of ?empty "''u.jpg''" None] d c(2,3)
  have 3: "fst (process_single_image ?empty ''u.jpg'' None) \<noteq> PNone \<and>
           py_getitem (fst (process_single_image ?empty ''u.jpg'' None))
             ''final_decision'' = Inr (PStr ''DEFECT'') \<and>
           py_getitem (fst (process_single_image ?empty ''u.jpg'' None))
             ''defect_classification'' = Inr PNone \<and>
           py_in ''detected_defect_types''
             (fst (process_single_image ?empty ''u.jpg'' None)) = Inr False"
    by blast
  from pipeline_outcome[of ?full "''u.jpg''" None] f
  have 4: "fst (process_single_image ?full ''u.jpg'' None) = PNone" by blast
  from a 1 c(1,4) 2 d(2) 3 4 show ?thesis by (intro conjI) blast+
qed

subsection \<open>Batches\<close>


lemma isl_bind_res: "isl (bind_res m f) \<longleftrightarrow> isl m \<or> (\<exists>x. m = Inr x \<and> isl (f x))"
  by (cases m) auto













lemma count_good_char:
  "count_good rs = Inr n \<Longrightarrow>
     list_all (\<lambda>r. \<not> isl (py_getitem r ''final_decision'')) rs \<and>
     n = int (length (filter (\<lambda>r. py_getitem r ''final_decision'' = Inr (PStr ''GOOD'')) rs))"
  by (induction rs arbitrary: n) (auto simp: bind_res_eq_Inr)

lemma count_good_total:
  "list_all (\<lambda>r. \<not> isl (py_getitem r ''final_decision'')) rs \<Longrightarrow>
     count_good rs
       = Inr (int (length (filter (\<lambda>r. py_getitem r ''final_decision'' = Inr (PStr ''GOOD'')) rs)))"
proof (induction rs)
  case Nil
  then show ?case by simp
next
  case (Cons r rs)
  then obtain fd where "py_getitem r ''final_decision'' = Inr fd"
    by (cases "py_getitem r ''final_decision''") auto
  with Cons show ?case by simp
qed

lemma not_isl_iff: "\<not> isl m \<longleftrightarrow> (\<exists>x. m = Inr x)"
  by (cases m) auto

lemma count_good_raises:
  "\<not> list_all (\<lambda>r. \<not> isl (py_getitem r ''final_decision'')) rs \<Longrightarrow> isl (count_good rs)"
  by (induction rs) (auto simp: isl_bind_res not_isl_iff)

lemma batch_reply_ok:
  assumes "list_all (\<lambda>r. \<not> isl (py_getitem r ''final_decision'')) rs"
  shows "batch_reply rs =
     Inr (PDict
       [(''status'', PStr ''success''),
        (''summary'',
           PDict [(''total_images'', PInt (int (length rs))),
                  (''good_products'',
                     PInt (int (length (filter
                        (\<lambda>r. py_getitem r ''final_decision'' = Inr (PStr ''GOOD'')) rs)))),
                  (''defective_products'',
                     PInt (int (length rs) - int (length (filter
                        (\<lambda>r. py_getitem r ''final_decision'' = Inr (PStr ''GOOD'')) rs)))),
                  (''defect_rate'',
                     if int (length rs) > 0
                     then PFloat (fl (fl (of_int (int (length rs) - int (length (filter
                            (\<lambda>r. py_getitem r ''final_decision'' = Inr (PStr ''GOOD'')) rs)))
                          / of_int (int (length rs))) * 100))
                     else PInt 0)]),
        (''results'', PList rs)])"
  using assms by (simp add: batch_reply_def count_good_total Let_def)

lemma batch_reply_raises:
  "\<not> list_all (\<lambda>r. \<not> isl (py_getitem r ''final_decision'')) rs \<Longrightarrow> isl (batch_reply rs)"
  by (simp add: batch_reply_def Let_def isl_bind_res count_good_raises)




text \<open>
  C9. The \<open>defect_rate\<close> of the batch reply is \<open>defective_products / total_images * 100\<close>
  as Python computes it on floats: the double nearest to the quotient, times 100, again
  rounded to the nearest double; that value is within \<open>2^-45\<close> of the exact quotient times
  100. It is 0 when \<open>total_images\<close> is 0: the reply for an empty list of results is a
  reply, not an exception.
\<close>

theorem defect_rate_formula:
  "(\<exists>body. batch_reply [] = Inr body \<and>
      summary_field body ''total_images'' = Inr (PInt 0) \<and>
      summary_field body ''defect_rate'' = Inr (PInt 0)) \<and>
   (\<forall>body. batch_reply results = Inr body \<longrightarrow>
      (\<exists>t d. summary_field body ''total_images'' = Inr (PInt t) \<and>
             t = int (length results) \<and>
             summary_field body ''defective_products'' = Inr (PInt d) \<and>
             summary_field body ''defect_rate'' =
               Inr (if t = 0 then PInt 0
                    else PFloat (fl (fl (of_int d / of_int t) * 100))) \<and>
             (t \<noteq> 0 \<longrightarrow>
                \<bar>fl (fl (of_int d / of_int t) * 100) - of_int d / of_int t * 100\<bar>
                  \<le> 1 / 2 ^ 45)))"
proof -
  have empty: "\<exists>body. batch_reply [] = Inr body \<and>
      summary_field body ''total_images'' = Inr (PInt 0) \<and>
      summary_field body ''defect_rate'' = Inr (PInt 0)"
    by (simp add: batch_reply_def summary_field_def)
  have rate: "\<exists>t d. summary_field body ''total_images'' = Inr (PInt t) \<and>
             t = int (length results) \<and>
             summary_field body ''defective_products'' = Inr (PInt d) \<and>
             summary_field body ''defect_rate'' =
               Inr (if t = 0 then PInt 0
                    else PFloat (fl (fl (of_int d / of_int t) * 100))) \<and>
             (t \<noteq> 0 \<longrightarrow>
                \<bar>fl (fl (of_int d / of_int t) * 100) - of_int d / of_int t * 100\<bar>
                  \<le> 1 / 2 ^ 45)"
    if "batch_reply results = Inr body" for body
  proof -
    have ok: "list_all (\<lambda>r. \<not> isl (py_getitem r ''final_decision'')) results"
      using batch_reply_raises[of results] that by auto
    define good where
      "good = int (length (filter (\<lambda>r. py_getitem r ''final_decision'' = Inr (PStr ''GOOD''))
                              results))"
    define t where "t = int (length results)"
    define d where "d = t - good"
    have range: "0 \<le> d" "d \<le> t"
      by (simp_all add: d_def t_def good_def)
    from that batch_reply_ok[OF ok] have tf: "summary_field body ''total_images'' = Inr (PInt t)"
      by (auto simp: summary_field_def t_def)
    from that batch_reply_ok[OF ok] have df: "summary_field body ''defective_products''
          = Inr (PInt d)"
      by (auto simp: summary_field_def good_def d_def t_def)
    from that batch_reply_ok[OF ok] have "summary_field body ''defect_rate'' =
               Inr (if int (length results) > 0
                    then PFloat (fl (fl (of_int (int (length results) - good)
                                 / of_int (int (length results))) * 100))
                    else PInt 0)"
      by (auto simp: summary_field_def good_def)
    then have rf: "summary_field body ''defect_rate'' =
               Inr (if t = 0 then PInt 0 else PFloat (fl (fl (of_int d / of_int t) * 100)))"
      by (simp add: d_def t_def)
    have close: "\<bar>fl (fl (of_int d / of_int t) * 100) - of_int d / of_int t * 100\<bar>
                  \<le> 1 / 2 ^ 45" if "t \<noteq> 0"
    proof -
      from that have "0 < t" by (simp add: t_def)
      from percent_error[OF range this] show ?thesis .
    qed
    from tf df rf close show ?thesis unfolding t_def[symmetric] by blast
  qed
  from empty rate show ?thesis by blast
qed

theorem defect_rate_formula_witness:
  "\<exists>body. batch_reply [error_object TypeError, PDict [(''final_decision'', PStr ''GOOD'')],
                        PDict [(''final_decision'', PStr ''GOOD'')]] = Inr body \<and>
          summary_field body ''total_images'' = Inr (PInt 3) \<and>
          summary_field body ''defective_products'' = Inr (PInt 1) \<and>
          summary_field body ''defect_rate''
            = Inr (PFloat (2345624805922133 / 70368744177664)) \<and>
          \<bar>2345624805922133 / 70368744177664 - 100 / (3 :: rat)\<bar> \<le> 1 / 2 ^ 45"
proof -
  let ?rs = "[error_object TypeError, PDict [(''final_decision'', PStr ''GOOD'')],
              PDict [(''final_decision'', PStr ''GOOD'')]]"
  have "\<exists>body. batch_reply ?rs = Inr body \<and>
          summary_field body ''defective_products'' = Inr (PInt 1)"
    by (simp add: batch_reply_def summary_field_def error_object_def)
  then obtain body where b: "batch_reply ?rs = Inr body"
    and d: "summary_field body ''defective_products'' = Inr (PInt 1)" by blast
  have v: "fl (fl (of_int 1 / of_int 3) * 100) = 2345624805922133 / 70368744177664"
    by code_simp
  from defect_rate_formula[of ?rs] b obtain t d' where
    t: "summary_field body ''total_images'' = Inr (PInt t)" "t = int (length ?rs)"
    and d': "summary_field body ''defective_products'' = Inr (PInt d')"
    and r: "summary_field body ''defect_rate'' =
               Inr (if t = 0 then PInt 0 else PFloat (fl (fl (of_int d' / of_int t) * 100)))"
    and c: "t \<noteq> 0 \<longrightarrow>
                \<bar>fl (fl (of_int d' / of_int t) * 100) - of_int d' / of_int t * 100\<bar>
                  \<le> 1 / 2 ^ 45"
    by blast
  from d d' have d1: "d' = 1" by simp
  from t(2) have t3: "t = 3" by simp
  from r have r': "summary_field body ''defect_rate''
                     = Inr (PFloat (2345624805922133 / 70368744177664))"
    unfolding d1 t3 using v by simp
  from c have c': "\<bar>2345624805922133 / 70368744177664 - 100 / (3 :: rat)\<bar> \<le> 1 / 2 ^ 45"
    unfolding d1 t3 using v by simp
  from b t(1) t3 d r' c' show ?thesis by (intro exI[of _ body] conjI) simp_all
qed














text \<open>The API batch loop.\<close>

lemma batch_detect_loop_items:
  "batch_detect_loop env d idx images acc
     = acc @ List.map_filter id (batch_items env d idx images)"
  by (induction images arbitrary: idx acc)
     (simp_all split: option.splits)



lemma batch_item_has_decision:
  assumes "batch_item env d idx image_b64 = Some r"
  shows "\<not> isl (py_getitem r ''final_decision'')"
proof (cases "decode_image env image_b64")
  case (Inl e)
  with assms show ?thesis by (simp add: batch_item_def)
next
  case data: (Inr image_data)
  let ?temp_path = "''temp_batch_'' @ str_nat idx @ ''_'' @ uuid4 env idx @ ''.jpg''"
  show ?thesis
  proof (cases "write_file env ?temp_path image_data")
    case (Some e)
    with assms data show ?thesis by (simp add: batch_item_def Let_def)
  next
    case written: None
    show ?thesis
    proof (cases "process_image env d ?temp_path None")
      case (Inl e)
      with assms data written show ?thesis by (simp add: batch_item_def Let_def)
    next
      case res: (Inr result)
      show ?thesis
      proof (cases "py_truthy result")
        case False
        with assms data written res show ?thesis by (simp add: batch_item_def Let_def)
      next
        case truthy: True
        from format_flutter_response_never_fails[of result] obtain resp
          where resp: "format_flutter_response result = Inr resp" by blast
        from format_has_final_decision[OF resp] obtain fr fd
          where fr: "resp = PDict fr" and fd: "map_of fr ''final_decision'' = Some fd"
          by blast
        from assms data written res truthy resp fr
        have "r = PDict (dict_set fr ''image_index'' (PInt (int idx)))"
          by (simp add: batch_item_def Let_def)
        with fd show ?thesis by (simp add: map_of_dict_set)
      qed
    qed
  qed
qed

lemma batch_items_have_decision:
  "list_all (\<lambda>r. \<not> isl (py_getitem r ''final_decision''))
     (List.map_filter id (batch_items env d idx images))"
  by (induction images arbitrary: idx)
     (auto simp: batch_item_has_decision split: option.splits)






subsection \<open>The API replies\<close>

lemma error_reply_ok:
  "code = 400 \<or> code = 500 \<Longrightarrow> api_reply_ok (error_reply msg code)"
  by (auto simp: api_reply_ok_def error_reply_def reply_code_def reply_status_def
        reply_error_def)

lemma error_reply_status: "reply_status (error_reply msg code) = None"
  by (simp add: error_reply_def reply_status_def)

lemma formatted_reply_ok:
  assumes "format_flutter_response result = Inr resp"
  shows "api_reply_ok (Reply resp 200)"
  using format_flutter_response_cases[OF assms]
proof
  assume "format_body result = Inr resp"
  then show ?thesis
    by (rule format_body_InrD) (simp add: api_reply_ok_def reply_code_def reply_status_def)
next
  assume "\<exists>e. format_body result = Inl e \<and> resp = error_object e"
  then show ?thesis
    by (auto simp: api_reply_ok_def reply_code_def reply_status_def error_object_def)
qed

lemma detect_image_reply:
  "detect_image env det req = Unhandled UnboundLocalError \<or>
   api_reply_ok (detect_image env det req)"
proof (cases det)
  case None
  then show ?thesis by (simp add: detect_image_def error_reply_ok)
next
  case (Some d)
  show ?thesis
  proof (cases "is_ready d")
    case False
    with Some show ?thesis by (simp add: detect_image_def error_reply_ok)
  next
    case ready: True
    show ?thesis
    proof (cases "read_image env req")
      case (Inl e)
      with Some ready show ?thesis by (simp add: detect_image_def)
    next
      case (Inr image)
      show ?thesis
      proof (cases image)
        case None
        with Some ready Inr show ?thesis by (simp add: detect_image_def error_reply_ok)
      next
        case data: (Some image_data)
        let ?temp_path = "''temp_'' @ uuid4 env 0 @ ''.jpg''"
        show ?thesis
        proof (cases "write_file env ?temp_path image_data")
          case (Some e)
          with \<open>det = Some d\<close> ready Inr data show ?thesis
            by (simp add: detect_image_def error_reply_ok)
        next
          case written: None
          show ?thesis
          proof (cases "process_image env d ?temp_path None")
            case (Inl e)
            with \<open>det = Some d\<close> ready \<open>read_image env req = Inr image\<close> data written
            show ?thesis by (simp add: detect_image_def error_reply_ok)
          next
            case res: (Inr result)
            from format_flutter_response_never_fails[of result] obtain resp
              where resp: "format_flutter_response result = Inr resp" by blast
            from \<open>det = Some d\<close> ready \<open>read_image env req = Inr image\<close> data written res resp
            show ?thesis
              by (cases "py_truthy result")
                 (simp_all add: detect_image_def error_reply_ok formatted_reply_ok[OF resp])
          qed
        qed
      qed
    qed
  qed
qed

lemma batch_detect_body_reply:
  "batch_detect_body env d req = Inr h \<Longrightarrow> api_reply_ok h"
proof -
  assume a: "batch_detect_body env d req = Inr h"
  have ok: "api_reply_ok (error_reply ''No images provided'' 400)"
    by (simp add: error_reply_ok)
  have "h = error_reply ''No images provided'' 400 \<or>
        (\<exists>rs body. batch_reply rs = Inr body \<and>
                    list_all (\<lambda>r. \<not> isl (py_getitem r ''final_decision'')) rs \<and>
                    h = Reply body 200)"
    using a batch_items_have_decision[of env d 0]
    by (auto simp: batch_detect_body_def bind_res_eq_Inr batch_detect_loop_items
             split: if_splits)
  then show ?thesis
  proof
    assume "h = error_reply ''No images provided'' 400"
    with ok show ?thesis by simp
  next
    assume "\<exists>rs body. batch_reply rs = Inr body \<and>
                    list_all (\<lambda>r. \<not> isl (py_getitem r ''final_decision'')) rs \<and>
                    h = Reply body 200"
    then obtain rs body where b: "batch_reply rs = Inr body"
      and l: "list_all (\<lambda>r. \<not> isl (py_getitem r ''final_decision'')) rs"
      and h: "h = Reply body 200" by blast
    from b show ?thesis unfolding batch_reply_ok[OF l] h
      by (auto simp: api_reply_ok_def reply_code_def reply_status_def)
  qed
qed

lemma batch_detect_reply: "api_reply_ok (batch_detect env det req)"
proof (cases det)
  case None
  then show ?thesis by (simp add: batch_detect_def error_reply_ok)
next
  case (Some d)
  show ?thesis
  proof (cases "is_ready d")
    case False
    with Some show ?thesis by (simp add: batch_detect_def error_reply_ok)
  next
    case True
    with Some show ?thesis
      by (cases "batch_detect_body env d req")
         (simp_all add: batch_detect_def error_reply_ok batch_detect_body_reply)
  qed
qed

lemma system_info_reply: "api_reply_ok (system_info_endpoint g det)"
  by (cases det)
     (simp_all add: system_info_endpoint_def error_reply_ok,
      simp add: api_reply_ok_def reply_code_def reply_status_def)

lemma update_thresholds_reply: "api_reply_ok (fst (update_thresholds_endpoint g det req))"
  by (auto simp: update_thresholds_endpoint_def error_reply_ok
           split: option.splits sum.splits)
     (simp add: api_reply_ok_def reply_code_def reply_status_def)

text \<open>
  C5, as the code has it. The health reply has the \<open>status\<close> \<open>ok\<close>. Every reply that the
  detection, batch, system-information and threshold handlers construct is either an
  HTTP 200 reply with a \<open>status\<close> field that is \<open>success\<close> or \<open>error\<close> (\<open>error\<close> when
  the response formatter failed), or an HTTP 400 or 500 reply with an \<open>error\<close> field and
  no \<open>status\<close> field; a detector that is not ready gives the latter with code 500, a
  request without an image the latter with code 400.
\<close>

theorem api_reply_forms:
  "reply_code (health_check env det) = Some 200 \<and>
   reply_status (health_check env det) = Some (PStr ''ok'') \<and>
   (detect_image env det req = Unhandled UnboundLocalError \<or>
    api_reply_ok (detect_image env det req)) \<and>
   api_reply_ok (batch_detect env det req) \<and>
   api_reply_ok (system_info_endpoint g det) \<and>
   api_reply_ok (fst (update_thresholds_endpoint g det req)) \<and>
   (\<not> detector_ready det \<longrightarrow>
      detect_image env det req = error_reply ''Detection system not ready'' 500 \<and>
      batch_detect env det req = error_reply ''Detection system not ready'' 500) \<and>
   (detector_ready det \<and> read_image env req = Inr None \<longrightarrow>
      detect_image env det req = error_reply ''No image provided'' 400)"
proof -
  have health: "reply_code (health_check env det) = Some 200"
    "reply_status (health_check env det) = Some (PStr ''ok'')"
    by (simp_all add: health_check_def reply_code_def reply_status_def)
  have not_ready: "detect_image env det req = error_reply ''Detection system not ready'' 500 \<and>
      batch_detect env det req = error_reply ''Detection system not ready'' 500"
    if "\<not> detector_ready det"
    using that
    by (cases det) (simp_all add: detector_ready_def detect_image_def batch_detect_def)
  have no_image: "detect_image env det req = error_reply ''No image provided'' 400"
    if "detector_ready det \<and> read_image env req = Inr None"
    using that
    by (cases det) (simp_all add: detector_ready_def detect_image_def)
  from health detect_image_reply[of env det req] batch_detect_reply[of env det req]
    system_info_reply[of g det] update_thresholds_reply[of g det req] not_ready no_image
  show ?thesis by blast
qed

text \<open>
  C5 as stated fails: the reply for a detector that is not there, and the reply for a
  request without an image, carry an \<open>error\<close> field and no \<open>status\<close> field; the status of
  the health reply is \<open>ok\<close>, neither \<open>success\<close> nor \<open>error\<close>.
\<close>

theorem error_reply_has_no_status:
  "detect_image sample_env None (json_request (PDict [(''note'', PStr ''no image here'')]))
     = Reply (PDict [(''error'', PStr ''Detection system not ready'')]) 500 \<and>
   reply_status
     (detect_image sample_env None (json_request (PDict [(''note'', PStr ''no image here'')])))
     = None \<and>
   detect_image sample_env (Some ready_detector)
     (json_request (PDict [(''note'', PStr ''no image here'')]))
     = Reply (PDict [(''error'', PStr ''No image provided'')]) 400 \<and>
   reply_status
     (detect_image sample_env (Some ready_detector)
        (json_request (PDict [(''note'', PStr ''no image here'')])))
     = None \<and>
   reply_status (health_check sample_env (Some ready_detector)) = Some (PStr ''ok'')"
  by (simp add: detect_image_def error_reply_def reply_status_def health_check_def
        ready_detector_def is_ready_def loader_is_ready_def read_image_def json_request_def)

theorem api_reply_forms_witness:
  "\<not> detector_ready None \<and>
   detect_image sample_env None (json_request (PDict [(''image_base64'', PStr ''aGk='')]))
     = error_reply ''Detection system not ready'' 500 \<and>
   detector_ready (Some ready_detector) \<and>
   read_image sample_env (json_request (PDict [(''note'', PStr ''no image here'')])) = Inr None \<and>
   detect_image sample_env (Some ready_detector)
     (json_request (PDict [(''note'', PStr ''no image here'')]))
     = error_reply ''No image provided'' 400 \<and>
   reply_status (detect_image sample_env (Some ready_detector)
                   (json_request (PDict [(''image_base64'', PStr ''aGk='')])))
     = Some (PStr ''success'') \<and>
   api_reply_ok (detect_image sample_env (Some ready_detector)
                   (json_request (PDict [(''image_base64'', PStr ''aGk='')]))) \<and>
   detect_image sample_env (Some ready_detector)
     (json_request (PDict [(''image_base64'', PStr ''abc'')])) = Unhandled UnboundLocalError"
proof -
  let ?none = "json_request (PDict [(''note'', PStr ''no image here'')])"
  let ?img = "json_request (PDict [(''image_base64'', PStr ''aGk='')])"
  let ?bad = "json_request (PDict [(''image_base64'', PStr ''abc'')])"
  have a: "\<not> detector_ready None" by (simp add: detector_ready_def)
  have b: "detector_ready (Some ready_detector)"
    by (simp add: detector_ready_def ready_detector_def is_ready_def loader_is_ready_def)
  have c: "read_image sample_env ?none = Inr None"
    by (simp add: read_image_def json_request_def)
  have d: "reply_status (detect_image sample_env (Some ready_detector) ?img)
             = Some (PStr ''success'')"
    by code_simp
  have e: "detect_image sample_env (Some ready_detector) ?bad = Unhandled UnboundLocalError"
    by code_simp
  from d have ne: "detect_image sample_env (Some ready_detector) ?img
                     \<noteq> Unhandled UnboundLocalError"
    by (auto simp: reply_status_def)
  from api_reply_forms[of sample_env None ?img] a
  have 1: "detect_image sample_env None ?img = error_reply ''Detection system not ready'' 500"
    by blast
  from api_reply_forms[of sample_env "Some ready_detector" ?none] b c
  have 2: "detect_image sample_env (Some ready_detector) ?none
             = error_reply ''No image provided'' 400"
    by blast
  from api_reply_forms[of sample_env "Some ready_detector" ?img] ne
  have 3: "api_reply_ok (detect_image sample_env (Some ready_detector) ?img)"
    by blast
  from a 1 b c 2 d 3 e show ?thesis by blast
qed

subsection \<open>Thresholds\<close>

text \<open>
  What main.py itself establishes about the two names: \<open>update_thresholds\<close> rebinds each
  threshold that is given and leaves one that is omitted (passed as \<open>None\<close>) at its
  previous value, the threshold endpoint passes the fields of its request that way, and
  \<open>get_system_info\<close> reports the values current when it is called. Nothing in main.py,
  api\_server.py or image\_processor.py hands the two names to the detection core: the
  pipeline calls \<open>detect_anomaly\<close> and \<open>classify_defects\<close> with the image path (and the
  mask) alone.
\<close>

lemma update_thresholds_frame:
  "ANOMALY_THRESHOLD (update_thresholds g a d)
     = (if a = PNone then ANOMALY_THRESHOLD g else a)"
  "DEFECT_CONFIDENCE_THRESHOLD (update_thresholds g a d)
     = (if d = PNone then DEFECT_CONFIDENCE_THRESHOLD g else d)"
  by (simp_all add: update_thresholds_def Let_def)

lemma update_thresholds_endpoint_fields:
  "j \<noteq> [] \<Longrightarrow>
     snd (update_thresholds_endpoint g (Some dt) (json_request (PDict j)))
       = update_thresholds g
           (case map_of j ''anomaly_threshold'' of None \<Rightarrow> PNone | Some v \<Rightarrow> v)
           (case map_of j ''defect_threshold'' of None \<Rightarrow> PNone | Some v \<Rightarrow> v)"
  by (simp add: update_thresholds_endpoint_def json_request_def)

lemma get_system_info_thresholds:
  "py_getitem (get_system_info g dt) ''anomaly_threshold'' = Inr (ANOMALY_THRESHOLD g)"
  "py_getitem (get_system_info g dt) ''defect_threshold'' = Inr (DEFECT_CONFIDENCE_THRESHOLD g)"
  by (simp_all add: get_system_info_def)

end
